theory Spec2Isabelle
  imports
    Main
    "HOL-Library.Word"
    "HOL-Library.Signed_Division"
    "HOL-Library.Finite_Map"
begin

unbundle bit_operations_syntax

section \<open>The process monitor of magiskhide (\<^verbatim>\<open>proc_monitor.cpp\<close>)\<close>

text \<open>
  A shallow embedding of \<^verbatim>\<open>native/jni/magiskhide/proc_monitor.cpp\<close>. The global variables
  of the file are the fields of one record that every function takes and returns. What the
  functions read from the kernel and the file systems is a second record, the environment,
  which a function reads but never changes. Every call with an effect outside the process
  (\<^verbatim>\<open>ptrace\<close>, \<^verbatim>\<open>waitpid\<close>, \<^verbatim>\<open>setitimer\<close>, \<^verbatim>\<open>hide_daemon\<close>, the log) is appended to a
  list of events, in the order the code issues it. The code does not look at what
  \<^verbatim>\<open>ptrace\<close> returns, except to log a failure in \<^verbatim>\<open>xptrace\<close>; that log line is left out.
  An access outside the bit set of
  monitored pids has no defined behaviour in C++; the functions that can reach one return
  \<open>None\<close> there.
\<close>

subsection \<open>Data\<close>

text \<open>The fields of \<^verbatim>\<open>struct stat\<close> the file reads. \<^verbatim>\<open>st_uid\<close> is an unsigned 32-bit value.\<close>

record stat =
  st_dev :: nat
  st_ino :: nat
  st_uid :: "32 word"

text \<open>
  The environment. The first three fields are fixed when the file is compiled:
  \<^verbatim>\<open>__LP64__\<close>, and the macros \<^verbatim>\<open>APP_DATA_DIR\<close> and \<^verbatim>\<open>ISOLATED_MAGIC\<close> of
  \<^verbatim>\<open>magiskhide.hpp\<close>. The others are what the system calls and the C library return:
  \<^item> \<open>data_users\<close>: the names \<^verbatim>\<open>xreaddir\<close> hands out for \<^verbatim>\<open>APP_DATA_DIR\<close>, in order;
  \<^item> \<open>stat_path\<close>: \<^verbatim>\<open>stat\<close> of a path (\<open>None\<close> when it fails);
  \<^item> \<open>proc_stat\<close>: \<^verbatim>\<open>stat\<close> of \<^verbatim>\<open>/proc/<pid>\<close>;
  \<^item> \<open>proc_ns\<close>: \<^verbatim>\<open>stat\<close> of \<^verbatim>\<open>/proc/<pid>/ns/mnt\<close>;
  \<^item> \<open>proc_cmdline\<close>: \<^verbatim>\<open>/proc/<pid>/cmdline\<close>: \<open>None\<close> when it cannot be opened,
    \<open>Some None\<close> when \<^verbatim>\<open>fgets\<close> reads nothing, \<open>Some (Some c)\<close> when \<^verbatim>\<open>fgets\<close> leaves the
    C string \<open>c\<close> in the buffer;
  \<^item> \<open>proc_ppid\<close>: \<^verbatim>\<open>/proc/<pid>/stat\<close>: \<open>None\<close> when it cannot be opened, \<open>Some None\<close>
    when \<^verbatim>\<open>fscanf\<close> converts nothing, \<open>Some (Some n)\<close> when it stores \<open>n\<close>;
  \<^item> \<open>proc_status\<close>: \<^verbatim>\<open>/proc/<pid>/status\<close>: \<open>None\<close> when it cannot be opened, else one
    pair for each line \<^verbatim>\<open>fgets\<close> delivers: what \<^verbatim>\<open>sscanf(buf, "%s", key)\<close> stores (if
    anything) and what \<^verbatim>\<open>sscanf(buf, "%*s %d", &tgid)\<close> stores (if anything);
  \<^item> \<open>procfs_pids\<close>: the pids \<^verbatim>\<open>crawl_procfs\<close> passes to its callback, in order;
  \<^item> \<open>inotify_init_fd\<close>: what \<^verbatim>\<open>xinotify_init1\<close> returns;
  \<^item> \<open>app_process32\<close>, \<open>app_process64\<close>: whether \<^verbatim>\<open>access\<close> finds
    \<^verbatim>\<open>/system/bin/app_process32\<close> and \<^verbatim>\<open>/system/bin/app_process64\<close>;
  \<^item> \<open>uninit_cmdline\<close>, \<open>uninit_key\<close>, \<open>uninit_tgid\<close>, \<open>uninit_ppid\<close>: what the local
    variables \<^verbatim>\<open>cmdline\<close>, \<^verbatim>\<open>key\<close>, \<^verbatim>\<open>tgid\<close> and \<^verbatim>\<open>ppid\<close> hold when nothing was stored in
    them (they are not initialised).
\<close>

record world =
  lp64 :: bool
  app_data_dir :: string
  isolated_magic :: string
  data_users :: "string list"
  stat_path :: "string \<Rightarrow> stat option"
  proc_stat :: "int \<Rightarrow> stat option"
  proc_ns :: "int \<Rightarrow> stat option"
  proc_cmdline :: "int \<Rightarrow> string option option"
  proc_ppid :: "int \<Rightarrow> int option option"
  proc_status :: "int \<Rightarrow> (string option \<times> int option) list option"
  procfs_pids :: "int list"
  inotify_init_fd :: int
  app_process32 :: bool
  app_process64 :: bool
  uninit_cmdline :: string
  uninit_key :: string
  uninit_tgid :: int
  uninit_ppid :: int

text \<open>The \<^verbatim>\<open>PTRACE_O_*\<close> flags the file passes to \<^verbatim>\<open>PTRACE_SETOPTIONS\<close>, by name.\<close>

datatype ptrace_option =
  TRACEFORK | TRACEVFORK | TRACECLONE | TRACEEXEC | TRACEEXIT

text \<open>The messages of \<^verbatim>\<open>LOGI\<close> and \<^verbatim>\<open>LOGD\<close> (\<^verbatim>\<open>PTRACE_LOG\<close> expands to nothing).\<close>

datatype log_msg =
  Msg_isolated string int int
  | Msg_app_zygote string int int
  | Msg_target string int int
  | Msg_ptrace_zygote int
  | Msg_nothing_to_monitor
  | Msg_cleaning_up
  | Msg_terminate

datatype event =
  Ptrace_attach int
  | Ptrace_setoptions int "ptrace_option list"
  | Ptrace_cont int int
  | Ptrace_detach int int
  | Ptrace_geteventmsg int
  | Waitpid int
  | Hide_daemon int
  | Setitimer nat nat
  | Nanosleep
  | Inotify_watch string
  | Set_hide_state bool
  | Mutex_destroy
  | Close_fd int
  | Pthread_exit
  | Log log_msg

text \<open>
  The globals. \<^verbatim>\<open>hide_set\<close> is a \<^verbatim>\<open>std::set\<close> of pairs that the file only iterates over and
  clears: the list is the sequence of its elements in iteration order. The two
  \<^verbatim>\<open>std::map\<close>s are finite maps. \<^verbatim>\<open>attaches\<close> is a \<^verbatim>\<open>bitset<PID_MAX>\<close>: the set of the
  positions that hold a 1. \<open>itimer\<close> is the period in microseconds that the last
  \<^verbatim>\<open>setitimer(ITIMER_REAL, ...)\<close> of the file installed, 0 when the timer is not armed.
\<close>

record monitor =
  hide_set :: "(string \<times> string) list"
  zygote_map :: "(int, stat) fmap"
  uid_proc_map :: "(int, string list) fmap"
  attaches :: "nat set"
  inotify_fd :: int
  itimer :: nat
  events :: "event list"

definition emit :: "event list \<Rightarrow> monitor \<Rightarrow> monitor" where
  "emit es s = s\<lparr>events := events s @ es\<rparr>"

subsection \<open>The bit set of monitored pids\<close>

definition PID_MAX :: nat where
  "PID_MAX = 32768"

text \<open>\<^verbatim>\<open>size_t\<close> has 64 bits on an LP64 build and 32 bits otherwise; its values are naturals below \<open>2 ^ size_bits\<close>.\<close>

definition size_bits :: "world \<Rightarrow> nat" where
  "size_bits w = (if lp64 w then 64 else 32)"

text \<open>The conversion of an \<^verbatim>\<open>int\<close> to \<^verbatim>\<open>size_t\<close>.\<close>

definition size_t_of_int :: "world \<Rightarrow> int \<Rightarrow> nat" where
  "size_t_of_int w i = nat (i mod 2 ^ size_bits w)"

text \<open>\<^verbatim>\<open>pos - 1\<close> in \<^verbatim>\<open>size_t\<close>: the position \<^verbatim>\<open>operator[]\<close> passes to the \<^verbatim>\<open>bitset\<close>.\<close>

definition pid_slot :: "world \<Rightarrow> nat \<Rightarrow> nat" where
  "pid_slot w pos = (pos + 2 ^ size_bits w - 1) mod 2 ^ size_bits w"

text \<open>
  \<^verbatim>\<open>pid_set::operator[]\<close>, read and written. \<^verbatim>\<open>bitset::operator[]\<close> checks nothing: at a
  position that is not below \<^verbatim>\<open>PID_MAX\<close> the behaviour is undefined (\<open>None\<close>).
\<close>

definition pid_set_get :: "world \<Rightarrow> nat set \<Rightarrow> nat \<Rightarrow> bool option" where
  "pid_set_get w bits pos =
     (if pid_slot w pos < PID_MAX then Some (pid_slot w pos \<in> bits) else None)"

definition pid_set_put :: "world \<Rightarrow> nat set \<Rightarrow> nat \<Rightarrow> bool \<Rightarrow> nat set option" where
  "pid_set_put w bits pos b =
     (if pid_slot w pos < PID_MAX
      then Some (if b then insert (pid_slot w pos) bits else bits - {pid_slot w pos})
      else None)"

definition pid_set_reset :: "nat set" where
  "pid_set_reset = {}"

subsection \<open>Constants of the platform\<close>

text \<open>
  Signal numbers, \<^verbatim>\<open>errno\<close> values, ptrace event codes and the inotify mask bit, as Linux
  defines them (\<^verbatim>\<open>signal.h\<close>, \<^verbatim>\<open>errno.h\<close>, \<^verbatim>\<open>linux/ptrace.h\<close>, \<^verbatim>\<open>sys/inotify.h\<close>).
\<close>

definition SIGTRAP :: "32 word" where "SIGTRAP = 5"
definition SIGSTOP :: "32 word" where "SIGSTOP = 19"
definition ECHILD :: int where "ECHILD = 10"
definition PTRACE_EVENT_FORK :: "32 word" where "PTRACE_EVENT_FORK = 1"
definition PTRACE_EVENT_VFORK :: "32 word" where "PTRACE_EVENT_VFORK = 2"
definition PTRACE_EVENT_CLONE :: "32 word" where "PTRACE_EVENT_CLONE = 3"
definition PTRACE_EVENT_EXEC :: "32 word" where "PTRACE_EVENT_EXEC = 4"
definition PTRACE_EVENT_EXIT :: "32 word" where "PTRACE_EVENT_EXIT = 6"
definition IN_CLOSE_WRITE :: "32 word" where "IN_CLOSE_WRITE = 8"

text \<open>
  The macros \<^verbatim>\<open>WIFSTOPPED\<close> and \<^verbatim>\<open>WSTOPSIG\<close> of the C library (\<^verbatim>\<open>sys/wait.h\<close>), in
  the encoding Linux gives a wait status: it reports a stop when its low byte is
  \<^verbatim>\<open>0x7f\<close>, and the stop signal is the next byte.
\<close>

definition WIFSTOPPED :: "32 word \<Rightarrow> bool" where
  "WIFSTOPPED status \<longleftrightarrow> status AND 0xff = 0x7f"

definition WSTOPSIG :: "32 word \<Rightarrow> 32 word" where
  "WSTOPSIG status = drop_bit 8 status AND 0xff"

text \<open>\<^verbatim>\<open>#define WEVENT(s) (((s) & 0xffff0000) >> 16)\<close>\<close>

definition WEVENT :: "32 word \<Rightarrow> 32 word" where
  "WEVENT status = drop_bit 16 (status AND 0xffff0000)"

subsection \<open>Strings\<close>

text \<open>The C string a \<^verbatim>\<open>char *\<close> into a \<^verbatim>\<open>std::string\<close> denotes: it ends at the first NUL.\<close>

definition c_str :: "string \<Rightarrow> string" where
  "c_str s = takeWhile (\<lambda>c. c \<noteq> CHR 0x00) s"

text \<open>
  Modelled from the spec: \<^verbatim>\<open>str_starts\<close> and \<^verbatim>\<open>str_ends\<close> of \<^verbatim>\<open>utils.hpp\<close>, which is not
  part of the sources at hand. \<open>str_starts s ss\<close>: \<open>ss\<close> is a prefix of \<open>s\<close>;
  \<open>str_ends s ss\<close>: \<open>ss\<close> is a suffix of \<open>s\<close>.
\<close>

definition str_starts :: "string \<Rightarrow> string \<Rightarrow> bool" where
  "str_starts s ss \<longleftrightarrow> take (length ss) s = ss"

definition str_ends :: "string \<Rightarrow> string \<Rightarrow> bool" where
  "str_ends s ss \<longleftrightarrow> length ss \<le> length s \<and> drop (length s - length ss) s = ss"

subsection \<open>Utils\<close>

text \<open>\<^verbatim>\<open>read_ns\<close>: \<open>None\<close> when \<^verbatim>\<open>stat\<close> fails (the function then returns non-zero and leaves \<^verbatim>\<open>*st\<close> as it was).\<close>

definition read_ns :: "world \<Rightarrow> int \<Rightarrow> stat option" where
  "read_ns w pid = proc_ns w pid"

definition parse_ppid :: "world \<Rightarrow> int \<Rightarrow> int" where
  "parse_ppid w pid =
     (case proc_ppid w pid of
        None \<Rightarrow> - 1
      | Some None \<Rightarrow> uninit_ppid w
      | Some (Some ppid) \<Rightarrow> ppid)"

subsection \<open>\<^verbatim>\<open>update_uid_map\<close>\<close>

text \<open>
  The function holds \<^verbatim>\<open>monitor_lock\<close> from its first line to its last. The lock is not
  part of the state: the functions here run one at a time.

  \<^verbatim>\<open>uid_proc_map[k].emplace_back(v)\<close>: \<^verbatim>\<open>operator[]\<close> inserts an empty vector for a new key.
\<close>

definition emplace_back :: "int \<Rightarrow> string \<Rightarrow> (int, string list) fmap \<Rightarrow> (int, string list) fmap" where
  "emplace_back k v m =
     fmupd k ((case fmlookup m k of None \<Rightarrow> [] | Some l \<Rightarrow> l) @ [v]) m"

text \<open>
  The inner loop, over \<^verbatim>\<open>hide_set\<close>. \<open>user_dir\<close> is \<^verbatim>\<open>data_path\<close> cut back to
  \<^verbatim>\<open>user_len\<close>. The key of the map is an \<^verbatim>\<open>int\<close>: \<^verbatim>\<open>st.st_uid\<close> is converted.
\<close>

fun hide_loop ::
  "world \<Rightarrow> string \<Rightarrow> bool \<Rightarrow> (string \<times> string) list \<Rightarrow> (int, string list) fmap
     \<Rightarrow> (int, string list) fmap" where
  "hide_loop w user_dir first_iter [] m = m"
| "hide_loop w user_dir first_iter (hide # rest) m =
     (if fst hide = isolated_magic w \<and> \<not> first_iter then hide_loop w user_dir first_iter rest m
      else
        let m1 = (if fst hide = isolated_magic w then emplace_back (- 1) (snd hide) m else m) in
        (case stat_path w (c_str (user_dir @ fst hide)) of
           None \<Rightarrow> hide_loop w user_dir first_iter rest m1
         | Some st \<Rightarrow>
             hide_loop w user_dir first_iter rest (emplace_back (sint (st_uid st)) (snd hide) m1)))"

definition user_path :: "world \<Rightarrow> string \<Rightarrow> string" where
  "user_path w d_name = app_data_dir w @ ''/'' @ d_name @ ''/''"

text \<open>The outer loop, over the entries of \<^verbatim>\<open>APP_DATA_DIR\<close>.\<close>

fun user_loop ::
  "world \<Rightarrow> bool \<Rightarrow> string list \<Rightarrow> (string \<times> string) list \<Rightarrow> (int, string list) fmap
     \<Rightarrow> (int, string list) fmap" where
  "user_loop w first_iter [] hs m = m"
| "user_loop w first_iter (d_name # rest) hs m =
     user_loop w False rest hs (hide_loop w (user_path w d_name) first_iter hs m)"

definition update_uid_map :: "world \<Rightarrow> monitor \<Rightarrow> monitor" where
  "update_uid_map w s =
     s\<lparr>uid_proc_map := user_loop w True (data_users w) (hide_set s) fmempty\<rparr>"

subsection \<open>\<^verbatim>\<open>new_zygote\<close>, \<^verbatim>\<open>check_zygote\<close>\<close>

definition is_zygote_done :: "world \<Rightarrow> monitor \<Rightarrow> bool" where
  "is_zygote_done w s =
     (if lp64 w then 2 \<le> fcard (fmdom (zygote_map s)) else 1 \<le> fcard (fmdom (zygote_map s)))"

definition new_zygote :: "world \<Rightarrow> int \<Rightarrow> monitor \<Rightarrow> monitor" where
  "new_zygote w pid s =
     (case read_ns w pid of
        None \<Rightarrow> s
      | Some st \<Rightarrow>
          (case fmlookup (zygote_map s) pid of
             Some old \<Rightarrow> s\<lparr>zygote_map := fmupd pid st (zygote_map s)\<rparr>
           | None \<Rightarrow>
               emit [Log (Msg_ptrace_zygote pid), Ptrace_attach pid, Waitpid pid,
                     Ptrace_setoptions pid [TRACEFORK, TRACEVFORK, TRACEEXIT],
                     Ptrace_cont pid 0]
                 (s\<lparr>zygote_map := fmupd pid st (zygote_map s)\<rparr>)))"

text \<open>
  The callback of \<^verbatim>\<open>crawl_procfs\<close>. When \<^verbatim>\<open>fgets\<close> reads nothing, \<^verbatim>\<open>buf\<close> still holds the
  path \<^verbatim>\<open>/proc/<pid>/cmdline\<close>, which does not start with \<^verbatim>\<open>zygote\<close>.
\<close>

definition is_zygote_proc :: "world \<Rightarrow> int \<Rightarrow> bool" where
  "is_zygote_proc w pid =
     (case proc_cmdline w pid of
        None \<Rightarrow> False
      | Some None \<Rightarrow> False
      | Some (Some buf) \<Rightarrow> take 6 buf = ''zygote'' \<and> parse_ppid w pid = 1)"

text \<open>\<^verbatim>\<open>crawl_procfs\<close> with the callback of \<^verbatim>\<open>check_zygote\<close>, which always returns true.\<close>

fun crawl_procfs :: "world \<Rightarrow> int list \<Rightarrow> monitor \<Rightarrow> monitor" where
  "crawl_procfs w [] s = s"
| "crawl_procfs w (pid # rest) s =
     crawl_procfs w rest (if is_zygote_proc w pid then new_zygote w pid s else s)"

definition check_zygote :: "world \<Rightarrow> monitor \<Rightarrow> monitor" where
  "check_zygote w s =
     (let s1 = crawl_procfs w (procfs_pids w) s in
      if is_zygote_done w s1 then emit [Setitimer 0 0] (s1\<lparr>itimer := 0\<rparr>) else s1)"

subsection \<open>Signal handlers\<close>

text \<open>
  \<^verbatim>\<open>inotify_event\<close>. \<open>ev\<close> is \<open>None\<close> when \<^verbatim>\<open>poll\<close> reports nothing to read, else the mask
  and the name of the event that \<^verbatim>\<open>read\<close> delivers.
\<close>

definition inotify_event :: "world \<Rightarrow> (32 word \<times> string) option \<Rightarrow> monitor \<Rightarrow> monitor" where
  "inotify_event w ev s =
     (case ev of
        None \<Rightarrow> s
      | Some (ev_mask, name) \<Rightarrow>
          check_zygote w
            (if ev_mask AND IN_CLOSE_WRITE \<noteq> 0 \<and> name = ''packages.xml''
             then update_uid_map w s else s))"

text \<open>\<^verbatim>\<open>term_thread\<close>: the state it leaves behind when it ends the thread.\<close>

definition term_thread :: "monitor \<Rightarrow> monitor" where
  "term_thread s =
     s\<lparr>uid_proc_map := fmempty, zygote_map := fmempty, hide_set := [],
       attaches := pid_set_reset, inotify_fd := - 1,
       events := events s @ [Log Msg_cleaning_up, Set_hide_state False, Mutex_destroy,
                            Close_fd (inotify_fd s), Log Msg_terminate, Pthread_exit]\<rparr>"

subsection \<open>Classification\<close>

definition detach_pid :: "world \<Rightarrow> int \<Rightarrow> 32 word \<Rightarrow> monitor \<Rightarrow> monitor option" where
  "detach_pid w pid signal s =
     (case pid_set_put w (attaches s) (size_t_of_int w pid) False of
        None \<Rightarrow> None
      | Some a \<Rightarrow> Some (emit [Ptrace_detach pid (uint signal)] (s\<lparr>attaches := a\<rparr>)))"

text \<open>The two labels at the end of \<^verbatim>\<open>check_pid\<close>.\<close>

definition not_target :: "world \<Rightarrow> int \<Rightarrow> monitor \<Rightarrow> (bool \<times> monitor) option" where
  "not_target w pid s = map_option (Pair True) (detach_pid w pid 0 s)"

definition inject_and_hide :: "world \<Rightarrow> int \<Rightarrow> monitor \<Rightarrow> (bool \<times> monitor) option" where
  "inject_and_hide w pid s = map_option (Pair True) (detach_pid w pid 0 s)"

text \<open>The loop over \<^verbatim>\<open>zygote_map\<close>: true when it jumps to \<^verbatim>\<open>not_target\<close>.\<close>

definition same_ns :: "stat \<Rightarrow> stat \<Rightarrow> bool" where
  "same_ns zst st \<longleftrightarrow> st_ino zst = st_ino st \<and> st_dev zst = st_dev st"

definition ns_of_zygote :: "monitor \<Rightarrow> stat \<Rightarrow> bool" where
  "ns_of_zygote s st =
     list_ex (\<lambda>zpid. case fmlookup (zygote_map s) zpid of
                       None \<Rightarrow> False
                     | Some zst \<Rightarrow> same_ns zst st)
       (sorted_list_of_fset (fmdom (zygote_map s)))"

text \<open>
  The loop over the names configured for the uid, with the code after it. \<open>st\<close> is the
  \<^verbatim>\<open>stat\<close> of \<^verbatim>\<open>/proc/<pid>\<close>: \<^verbatim>\<open>read_ns\<close> writes over it when it succeeds, and its result
  is not checked.
\<close>

fun match_loop ::
  "world \<Rightarrow> int \<Rightarrow> int \<Rightarrow> string \<Rightarrow> stat \<Rightarrow> string list \<Rightarrow> monitor \<Rightarrow> (bool \<times> monitor) option" where
  "match_loop w pid uid cmdline st [] s = not_target w pid s"
| "match_loop w pid uid cmdline st (n # rest) s =
     (if n \<noteq> cmdline then match_loop w pid uid cmdline st rest s
      else if str_ends n ''_zygote''
      then inject_and_hide w pid (emit [Log (Msg_app_zygote cmdline pid uid)] s)
      else
        let st1 = (case read_ns w pid of None \<Rightarrow> st | Some ns \<Rightarrow> ns) in
        if ns_of_zygote s st1 then not_target w pid s
        else
          (case detach_pid w pid SIGSTOP (emit [Log (Msg_target cmdline pid uid)] s) of
             None \<Rightarrow> None
           | Some s1 \<Rightarrow> Some (True, emit [Hide_daemon pid] s1)))"

definition lookup_uid ::
  "world \<Rightarrow> int \<Rightarrow> int \<Rightarrow> string \<Rightarrow> stat \<Rightarrow> monitor \<Rightarrow> (bool \<times> monitor) option" where
  "lookup_uid w pid uid cmdline st s =
     (case fmlookup (uid_proc_map s) uid of
        None \<Rightarrow> not_target w pid s
      | Some names \<Rightarrow> match_loop w pid uid cmdline st names s)"

definition zygote_names :: "string list" where
  "zygote_names = [''zygote'', ''zygote32'', ''zygote64'', ''usap32'', ''usap64'']"

definition check_pid :: "world \<Rightarrow> int \<Rightarrow> monitor \<Rightarrow> (bool \<times> monitor) option" where
  "check_pid w pid s =
     (case proc_stat w pid of
        None \<Rightarrow> map_option (Pair True) (detach_pid w pid 0 s)
      | Some st \<Rightarrow>
          if st_uid st = 0 then Some (False, s)
          else
            (case proc_cmdline w pid of
               None \<Rightarrow> map_option (Pair True) (detach_pid w pid 0 s)
             | Some line \<Rightarrow>
                 let cmdline = (case line of None \<Rightarrow> uninit_cmdline w | Some c \<Rightarrow> c) in
                 if cmdline \<in> set zygote_names then Some (False, s)
                 else
                   let uid = sint (st_uid st) in
                   if 90000 < uid smod 100000
                   then
                     (case fmlookup (uid_proc_map s) (- 1) of
                        None \<Rightarrow> not_target w pid s
                      | Some patterns \<Rightarrow>
                          if list_ex (str_starts cmdline) patterns
                          then inject_and_hide w pid (emit [Log (Msg_isolated cmdline pid uid)] s)
                          else lookup_uid w pid uid cmdline st s)
                   else lookup_uid w pid uid cmdline st s))"

subsection \<open>\<^verbatim>\<open>is_process\<close>\<close>

fun status_loop :: "world \<Rightarrow> int \<Rightarrow> string \<Rightarrow> (string option \<times> int option) list \<Rightarrow> bool" where
  "status_loop w pid key [] = False"
| "status_loop w pid key (line # rest) =
     (let key1 = (case fst line of None \<Rightarrow> key | Some k \<Rightarrow> k) in
      if key1 = ''Tgid:''
      then (case snd line of None \<Rightarrow> uninit_tgid w | Some tgid \<Rightarrow> tgid) = pid
      else status_loop w pid key1 rest)"

definition is_process :: "world \<Rightarrow> int \<Rightarrow> bool" where
  "is_process w pid =
     (case proc_status w pid of
        None \<Rightarrow> False
      | Some lines \<Rightarrow> status_loop w pid (uninit_key w) lines)"

subsection \<open>\<^verbatim>\<open>proc_monitor\<close>\<close>

definition APP_PROC :: string where
  "APP_PROC = ''/system/bin/app_process''"

text \<open>
  \<^verbatim>\<open>setup_inotify\<close>. \<^verbatim>\<open>term_thread\<close> ends the thread: the flag is false when it was
  called, and the state is then the one it leaves behind.
\<close>

definition setup_inotify :: "world \<Rightarrow> monitor \<Rightarrow> bool \<times> monitor" where
  "setup_inotify w s =
     (let s1 = s\<lparr>inotify_fd := inotify_init_fd w\<rparr> in
      if inotify_fd s1 < 0 then (False, term_thread s1)
      else
        (True,
         emit (Inotify_watch ''/data/system'' #
               (if app_process32 w
                then Inotify_watch (APP_PROC @ ''32'') #
                     (if app_process64 w then [Inotify_watch (APP_PROC @ ''64'')] else [])
                else [Inotify_watch APP_PROC]))
           s1))"

text \<open>
  \<^verbatim>\<open>proc_monitor\<close> up to its loop (the signal masks and handlers apart): the flag is
  false when the thread has ended.
\<close>

definition proc_monitor_start :: "world \<Rightarrow> monitor \<Rightarrow> bool \<times> monitor" where
  "proc_monitor_start w s =
     (case setup_inotify w s of
        (False, s1) \<Rightarrow> (False, s1)
      | (True, s1) \<Rightarrow>
          let s2 = check_zygote w s1 in
          (True,
           if \<not> is_zygote_done w s2
           then emit [Setitimer 250000 250000] (s2\<lparr>itimer := 250000\<rparr>)
           else s2))"

text \<open>
  What one \<^verbatim>\<open>waitpid(-1, &status, __WALL | __WNOTHREAD)\<close> of the main loop delivers: a
  failure with its \<^verbatim>\<open>errno\<close>, or a pid with its status and with the message
  \<^verbatim>\<open>PTRACE_GETEVENTMSG\<close> stores for it (an \<^verbatim>\<open>unsigned long\<close>).
\<close>

datatype wait_result =
  Wait_failed int
  | Wait_pid int "32 word" nat

definition ptrace_cont :: "int \<Rightarrow> 32 word \<Rightarrow> monitor \<Rightarrow> monitor" where
  "ptrace_cont pid signal s = emit [Ptrace_cont pid (uint signal)] s"

text \<open>The branch for a stop of a pid of \<^verbatim>\<open>zygote_map\<close>.\<close>

definition zygote_event :: "world \<Rightarrow> int \<Rightarrow> 32 word \<Rightarrow> nat \<Rightarrow> monitor \<Rightarrow> monitor option" where
  "zygote_event w pid event msg s =
     (if event = PTRACE_EVENT_FORK \<or> event = PTRACE_EVENT_VFORK
      then
        (case pid_set_put w (attaches s) msg True of
           None \<Rightarrow> None
         | Some a \<Rightarrow> Some (ptrace_cont pid 0 (s\<lparr>attaches := a\<rparr>)))
      else detach_pid w pid 0 (s\<lparr>zygote_map := fmdrop pid (zygote_map s)\<rparr>))"

text \<open>The branch for a stop of any other pid.\<close>

definition child_event :: "world \<Rightarrow> int \<Rightarrow> 32 word \<Rightarrow> monitor \<Rightarrow> monitor option" where
  "child_event w pid event s =
     (if event = PTRACE_EVENT_CLONE
      then
        (case pid_set_get w (attaches s) (size_t_of_int w pid) of
           None \<Rightarrow> None
         | Some False \<Rightarrow> Some (ptrace_cont pid 0 s)
         | Some True \<Rightarrow>
             (case check_pid w pid s of
                None \<Rightarrow> None
              | Some (consumed, s1) \<Rightarrow> Some (if consumed then s1 else ptrace_cont pid 0 s1)))
      else detach_pid w pid 0 s)"

text \<open>The branch for a \<^verbatim>\<open>SIGSTOP\<close> stop.\<close>

definition sigstop_event :: "world \<Rightarrow> int \<Rightarrow> monitor \<Rightarrow> monitor option" where
  "sigstop_event w pid s =
     (case pid_set_get w (attaches s) (size_t_of_int w pid) of
        None \<Rightarrow> None
      | Some marked \<Rightarrow>
          (case (if marked then Some (attaches s)
                 else pid_set_put w (attaches s) (size_t_of_int w pid) (is_process w pid)) of
             None \<Rightarrow> None
           | Some a \<Rightarrow>
               (case pid_set_get w a (size_t_of_int w pid) of
                  None \<Rightarrow> None
                | Some True \<Rightarrow>
                    Some (ptrace_cont pid 0
                           (emit [Ptrace_setoptions pid [TRACECLONE, TRACEEXEC, TRACEEXIT]]
                              (s\<lparr>attaches := a\<rparr>)))
                | Some False \<Rightarrow> detach_pid w pid 0 (s\<lparr>attaches := a\<rparr>))))"

text \<open>One turn of the \<^verbatim>\<open>for (int status;;)\<close> loop.\<close>

definition proc_monitor_iter :: "world \<Rightarrow> wait_result \<Rightarrow> monitor \<Rightarrow> monitor option" where
  "proc_monitor_iter w r s =
     (case r of
        Wait_failed errno \<Rightarrow>
          Some (if errno = ECHILD then emit [Log Msg_nothing_to_monitor, Nanosleep] s else s)
      | Wait_pid pid status msg \<Rightarrow>
          if \<not> WIFSTOPPED status then detach_pid w pid 0 s
          else
            let event = WEVENT status; signal = WSTOPSIG status in
            if signal = SIGTRAP \<and> event \<noteq> 0
            then
              (let s1 = emit [Ptrace_geteventmsg pid] s in
               if pid |\<in>| fmdom (zygote_map s1) then zygote_event w pid event msg s1
               else child_event w pid event s1)
            else if signal = SIGSTOP then sigstop_event w pid s
            else Some (ptrace_cont pid signal s))"

text \<open>
  The loop never ends by itself. Its turns for the results of a finite sequence of
  \<^verbatim>\<open>waitpid\<close> calls:
\<close>

fun proc_monitor_loop :: "world \<Rightarrow> wait_result list \<Rightarrow> monitor \<Rightarrow> monitor option" where
  "proc_monitor_loop w [] s = Some s"
| "proc_monitor_loop w (r # rest) s =
     (case proc_monitor_iter w r s of
        None \<Rightarrow> None
      | Some s1 \<Rightarrow> proc_monitor_loop w rest s1)"

subsection \<open>A system to run the functions on\<close>

text \<open>
  A 64-bit device with one user. Process 600 is the zygote (parent 1); process 4200 is a
  child of it that has taken the identity of the package \<^verbatim>\<open>com.example.target\<close>, uid
  10042, and lives in a mount namespace of its own; task 4201 is a thread of 4200.
\<close>

definition mk_stat :: "nat \<Rightarrow> nat \<Rightarrow> 32 word \<Rightarrow> stat" where
  "mk_stat dev ino uid = \<lparr>st_dev = dev, st_ino = ino, st_uid = uid\<rparr>"

definition demo_world :: world where
  "demo_world =
     \<lparr>lp64 = True,
      app_data_dir = ''/data/user_de'',
      isolated_magic = ''isolated'',
      data_users = [''0''],
      stat_path = (\<lambda>path. if path = ''/data/user_de/0/com.example.target''
                           then Some (mk_stat 64 1300 10042) else None),
      proc_stat = (\<lambda>pid. if pid = 600 then Some (mk_stat 5 600 0)
                          else if pid = 4200 \<or> pid = 4201 then Some (mk_stat 5 4200 10042)
                          else None),
      proc_ns = (\<lambda>pid. if pid = 600 then Some (mk_stat 4 4026531840 0)
                        else if pid = 4200 \<or> pid = 4201 then Some (mk_stat 4 4026532000 0)
                        else None),
      proc_cmdline = (\<lambda>pid. if pid = 600 then Some (Some ''zygote64'')
                             else if pid = 4200 \<or> pid = 4201 then Some (Some ''com.example.target'')
                             else None),
      proc_ppid = (\<lambda>pid. if pid = 600 then Some (Some 1)
                          else if pid = 4200 then Some (Some 600)
                          else None),
      proc_status = (\<lambda>pid. if pid = 4200 \<or> pid = 4201
                            then Some [(Some ''Name:'', None), (Some ''State:'', None),
                                       (Some ''Tgid:'', Some 4200), (Some ''Pid:'', Some pid)]
                            else None),
      procfs_pids = [1, 600, 4200],
      inotify_init_fd = 7,
      app_process32 = True,
      app_process64 = True,
      uninit_cmdline = [],
      uninit_key = [],
      uninit_tgid = 0,
      uninit_ppid = 0\<rparr>"

definition demo_monitor :: monitor where
  "demo_monitor =
     \<lparr>hide_set = [(''com.example.target'', ''com.example.target'')],
      zygote_map = fmupd 600 (mk_stat 4 4026531840 0) fmempty,
      uid_proc_map = fmupd 10042 [''com.example.target''] fmempty,
      attaches = {4199},
      inotify_fd = 7,
      itimer = 250000,
      events = []\<rparr>"

subsection \<open>Auxiliary notions for the statements\<close>

text \<open>The events a run from \<open>s\<close> to \<open>s'\<close> has added.\<close>

definition new_events :: "monitor \<Rightarrow> monitor \<Rightarrow> event list" where
  "new_events s s' = drop (length (events s)) (events s')"

text \<open>The number of zygotes \<^verbatim>\<open>is_zygote_done\<close> waits for.\<close>

definition zygote_count :: "world \<Rightarrow> nat" where
  "zygote_count w = (if lp64 w then 2 else 1)"

text \<open>
  Variants of the system above: a build for 64 or 32 bits where the processes \<open>zs\<close> are
  zygotes, each in a namespace of its own; and a monitor that has found nothing yet.
\<close>

definition zygote_world :: "bool \<Rightarrow> int list \<Rightarrow> world" where
  "zygote_world is64 zs =
     demo_world\<lparr>lp64 := is64, procfs_pids := 1 # zs,
       proc_cmdline := (\<lambda>pid. if pid \<in> set zs then Some (Some ''zygote'') else None),
       proc_ppid := (\<lambda>pid. if pid \<in> set zs then Some (Some 1) else None),
       proc_ns := (\<lambda>pid. if pid \<in> set zs then Some (mk_stat 4 (nat pid) 0) else None)\<rparr>"

definition idle_monitor :: monitor where
  "idle_monitor =
     \<lparr>hide_set = [], zygote_map = fmempty, uid_proc_map = fmempty, attaches = {},
      inotify_fd = 7, itimer = 250000, events = []\<rparr>"

text \<open>
  The child with the namespace of the zygote; a process with a given uid and command line;
  and a monitor that is configured for isolated processes only.
\<close>

definition shared_world :: world where
  "shared_world = demo_world\<lparr>proc_ns := \<lambda>pid. Some (mk_stat 4 4026531840 0)\<rparr>"

definition uid_world :: "32 word \<Rightarrow> string \<Rightarrow> world" where
  "uid_world uid cmdline =
     demo_world\<lparr>proc_stat := \<lambda>pid. Some (mk_stat 5 (nat pid) uid),
                proc_cmdline := \<lambda>pid. Some (Some cmdline)\<rparr>"

definition iso_monitor :: monitor where
  "iso_monitor =
     demo_monitor\<lparr>hide_set := [(''isolated'', ''com.example.target:iso'')],
                  uid_proc_map := fmupd (- 1) [''com.example.target:iso''] fmempty\<rparr>"

text \<open>
  Notions for the statements about \<^verbatim>\<open>update_uid_map\<close>. \<open>listed m k p\<close>: the map holds the
  name \<open>p\<close> under the key \<open>k\<close>. \<open>pkg_dir w d pkg\<close>: the path \<^verbatim>\<open>stat\<close> receives for the
  entry \<open>d\<close> of \<^verbatim>\<open>APP_DATA_DIR\<close> and the package \<open>pkg\<close>. \<open>feeds\<close>: what one turn of the
  outer loop adds to the map. \<open>refresh_iff\<close>: some key of the map lists the name if and
  only if the directory of the package exists for some entry.
\<close>

definition listed :: "(int, string list) fmap \<Rightarrow> int \<Rightarrow> string \<Rightarrow> bool" where
  "listed m k p \<longleftrightarrow> (case fmlookup m k of None \<Rightarrow> False | Some l \<Rightarrow> p \<in> set l)"

definition pkg_dir :: "world \<Rightarrow> string \<Rightarrow> string \<Rightarrow> string" where
  "pkg_dir w d_name pkg = c_str (user_path w d_name @ pkg)"

definition feeds :: "world \<Rightarrow> bool \<Rightarrow> string \<Rightarrow> (string \<times> string) list \<Rightarrow> int \<Rightarrow> string \<Rightarrow> bool" where
  "feeds w first_iter d_name hs k p \<longleftrightarrow>
     (\<exists>pkg. (pkg, p) \<in> set hs \<and>
        ((pkg = isolated_magic w \<and> first_iter \<and> k = - 1) \<or>
         ((pkg \<noteq> isolated_magic w \<or> first_iter) \<and>
          (\<exists>st. stat_path w (pkg_dir w d_name pkg) = Some st \<and> sint (st_uid st) = k))))"

definition refresh_iff :: "world \<Rightarrow> monitor \<Rightarrow> string \<Rightarrow> string \<Rightarrow> bool" where
  "refresh_iff w s pkg p \<longleftrightarrow>
     (list_ex (\<lambda>k. listed (uid_proc_map s) k p) (sorted_list_of_fset (fmdom (uid_proc_map s)))
        \<longleftrightarrow> list_ex (\<lambda>d. stat_path w (pkg_dir w d pkg) \<noteq> None) (data_users w))"

text \<open>A device where two packages share a process name and only the second is installed.\<close>

definition two_world :: world where
  "two_world =
     demo_world\<lparr>stat_path := \<lambda>path. if path = ''/data/user_de/0/com.b''
                                     then Some (mk_stat 64 1400 10051) else None\<rparr>"

definition two_monitor :: monitor where
  "two_monitor = idle_monitor\<lparr>hide_set := [(''com.a'', ''p''), (''com.b'', ''p'')]\<rparr>"

text \<open>
  The monitor after its start on the device, with the uid map refreshed first, and after
  the zygote has forked the process 4200.
\<close>

definition demo_start :: monitor where
  "demo_start =
     snd (proc_monitor_start demo_world
            (update_uid_map demo_world
               (idle_monitor\<lparr>hide_set := [(''com.example.target'', ''com.example.target'')]\<rparr>)))"

definition demo_forked :: monitor where
  "demo_forked = demo_start\<lparr>attaches := {4199},
             events := events demo_start @ [Ptrace_geteventmsg 600, Ptrace_cont 600 0]\<rparr>"

section \<open>Properties\<close>

subsection \<open>The bit set\<close>

lemma size_bits_cases: "size_bits w = 32 \<or> size_bits w = 64"
  by (simp add: size_bits_def)

lemma pid_slot_eq:
  assumes "pos < 2 ^ size_bits w"
  shows "pid_slot w pos = (if pos = 0 then 2 ^ size_bits w - 1 else pos - 1)"
proof (cases "pos = 0")
  case True
  then show ?thesis by (simp add: pid_slot_def)
next
  case False
  then have "pos + 2 ^ size_bits w - 1 = (pos - 1) + 2 ^ size_bits w" by simp
  then have "pid_slot w pos = ((pos - 1) + 2 ^ size_bits w) mod 2 ^ size_bits w"
    by (simp only: pid_slot_def)
  also have "\<dots> = (pos - 1) mod 2 ^ size_bits w" by simp
  also have "\<dots> = pos - 1" using assms by simp
  finally show ?thesis using False by simp
qed

lemma PID_MAX_less_size: "PID_MAX < 2 ^ size_bits w - 1"
  using size_bits_cases [of w] by (auto simp: PID_MAX_def)

lemma pid_slot_in_range:
  assumes "pos < 2 ^ size_bits w"
  shows "pid_slot w pos < PID_MAX \<longleftrightarrow> 1 \<le> pos \<and> pos \<le> 32768"
  using assms PID_MAX_less_size [of w]
  by (auto simp: pid_slot_eq PID_MAX_def)

lemma size_t_of_int_less: "size_t_of_int w i < 2 ^ size_bits w"
proof -
  have "i mod 2 ^ size_bits w < 2 ^ size_bits w" by simp
  moreover have "0 \<le> i mod 2 ^ size_bits w" by simp
  ultimately have "nat (i mod 2 ^ size_bits w) < nat (2 ^ size_bits w)" by linarith
  then show ?thesis by (simp add: size_t_of_int_def nat_power_eq)
qed

lemma size_t_of_int_pos:
  assumes "0 \<le> i" "i < 2 ^ 31"
  shows "size_t_of_int w i = nat i"
proof -
  have "(2::int) ^ 31 \<le> 2 ^ size_bits w"
    using size_bits_cases [of w] by auto
  then have "i mod 2 ^ size_bits w = i" using assms by simp
  then show ?thesis by (simp add: size_t_of_int_def)
qed

lemma size_t_of_int_neg:
  assumes "- (2 ^ 31) \<le> i" "i < 0"
  shows "size_t_of_int w i = nat (i + 2 ^ size_bits w)"
proof -
  have le: "(2::int) ^ 31 \<le> 2 ^ size_bits w"
    using size_bits_cases [of w] by auto
  have "i mod 2 ^ size_bits w = (i + 2 ^ size_bits w) mod 2 ^ size_bits w" by simp
  also have "\<dots> = i + 2 ^ size_bits w"
    using assms le by (intro mod_pos_pos_trivial) auto
  finally show ?thesis by (simp add: size_t_of_int_def)
qed

lemma pid_slot_of_pid:
  assumes "1 \<le> pid" "pid \<le> 32768"
  shows "pid_slot w (size_t_of_int w pid) = nat (pid - 1)"
proof -
  have eq: "size_t_of_int w pid = nat pid"
    using assms by (intro size_t_of_int_pos) auto
  have "nat pid < 2 ^ size_bits w"
    using size_t_of_int_less [of w pid] eq by simp
  then show ?thesis
    using assms eq by (simp add: pid_slot_eq nat_diff_distrib)
qed

lemma pid_slot_of_int_in_range:
  assumes "- (2 ^ 31) \<le> pid" "pid < 2 ^ 31"
  shows "pid_slot w (size_t_of_int w pid) < PID_MAX \<longleftrightarrow> 1 \<le> pid \<and> pid \<le> 32768"
proof (cases "0 \<le> pid")
  case True
  then have "size_t_of_int w pid = nat pid"
    using assms by (intro size_t_of_int_pos) auto
  then show ?thesis
    using pid_slot_in_range [OF size_t_of_int_less, of w pid] True by auto
next
  case False
  then have neg: "pid < 0" by simp
  have le: "(2::int) ^ 32 \<le> 2 ^ size_bits w"
    using size_bits_cases [of w] by auto
  have "size_t_of_int w pid = nat (pid + 2 ^ size_bits w)"
    using assms neg by (intro size_t_of_int_neg) auto
  moreover have "32768 < pid + 2 ^ size_bits w" using assms le by simp
  ultimately have "32768 < size_t_of_int w pid" by simp
  then show ?thesis
    using pid_slot_in_range [OF size_t_of_int_less, of w pid] neg by auto
qed

text \<open>
  C10. \<^verbatim>\<open>pid_set::operator[]\<close> passes \<^verbatim>\<open>pos - 1\<close> to the \<^verbatim>\<open>bitset\<close>: for a pid from 1 to
  32768 the position is \<open>pid - 1\<close> and the access is inside the \<^verbatim>\<open>bitset\<close>; for pid 0, for
  a negative pid and for every pid above 32768 (an \<^verbatim>\<open>int\<close>, or the \<^verbatim>\<open>unsigned long\<close> child
  pid of a fork event) the position is not below \<^verbatim>\<open>PID_MAX\<close>, and neither the read nor the
  write is defined.
\<close>

theorem pid_set_bounds:
  "(- (2 ^ 31) \<le> pid \<and> pid < 2 ^ 31 \<longrightarrow>
      pid_set_get w bits (size_t_of_int w pid) =
        (if 1 \<le> pid \<and> pid \<le> 32768 then Some (nat (pid - 1) \<in> bits) else None) \<and>
      pid_set_put w bits (size_t_of_int w pid) b =
        (if 1 \<le> pid \<and> pid \<le> 32768
         then Some (if b then insert (nat (pid - 1)) bits else bits - {nat (pid - 1)})
         else None)) \<and>
   (msg < 2 ^ size_bits w \<longrightarrow>
      (pid_set_put w bits msg b = None \<longleftrightarrow> msg = 0 \<or> 32768 < msg) \<and>
      (pid_set_get w bits msg = None \<longleftrightarrow> msg = 0 \<or> 32768 < msg))"
proof (intro conjI impI)
  assume r: "- (2 ^ 31) \<le> pid \<and> pid < 2 ^ 31"
  show "pid_set_get w bits (size_t_of_int w pid) =
        (if 1 \<le> pid \<and> pid \<le> 32768 then Some (nat (pid - 1) \<in> bits) else None)"
    using r pid_slot_of_int_in_range [of pid w] pid_slot_of_pid [of pid w]
    by (simp add: pid_set_get_def)
  show "pid_set_put w bits (size_t_of_int w pid) b =
        (if 1 \<le> pid \<and> pid \<le> 32768
         then Some (if b then insert (nat (pid - 1)) bits else bits - {nat (pid - 1)})
         else None)"
    using r pid_slot_of_int_in_range [of pid w] pid_slot_of_pid [of pid w]
    by (simp add: pid_set_put_def)
next
  assume m: "msg < 2 ^ size_bits w"
  show "pid_set_put w bits msg b = None \<longleftrightarrow> msg = 0 \<or> 32768 < msg"
    using pid_slot_in_range [OF m] by (auto simp: pid_set_put_def)
  show "pid_set_get w bits msg = None \<longleftrightarrow> msg = 0 \<or> 32768 < msg"
    using pid_slot_in_range [OF m] by (auto simp: pid_set_get_def)
qed

theorem pid_set_bounds_witness:
  "(- (2 ^ 31) \<le> (4200::int) \<and> (4200::int) < 2 ^ 31) \<and>
   pid_set_get demo_world {4199} (size_t_of_int demo_world 4200) = Some True \<and>
   pid_set_put demo_world {4199} (size_t_of_int demo_world 4200) False = Some {} \<and>
   (32769::nat) < 2 ^ size_bits demo_world \<and>
   pid_set_put demo_world {4199} 32769 True = None \<and>
   pid_set_get demo_world {4199} 32769 = None"
  using pid_set_bounds [of 4200 demo_world "{4199}" False 32769]
    pid_set_bounds [of 4200 demo_world "{4199}" True 32769]
  by (simp add: demo_world_def size_bits_def)

subsection \<open>The zygote registry\<close>

lemma count_list_distinct: "distinct xs \<Longrightarrow> x \<in> set xs \<Longrightarrow> count_list xs x = 1"
  by (induction xs) auto

lemma distinct_sorted_list_of_fset: "distinct (sorted_list_of_fset S)"
  by (simp add: sorted_list_of_fset.rep_eq)

text \<open>
  C5. \<^verbatim>\<open>new_zygote\<close> on a pid that \<^verbatim>\<open>zygote_map\<close> already holds: when the namespace can
  be read, the map keeps the same keys, so still one entry for the pid, which now holds the
  namespace just read; every other entry is as before, and no event is issued (no second
  \<^verbatim>\<open>PTRACE_ATTACH\<close>). When the namespace cannot be read, nothing changes.
\<close>

theorem new_zygote_registered:
  assumes "fmlookup (zygote_map s) pid = Some old"
  shows "(read_ns w pid = Some st \<longrightarrow>
            new_zygote w pid s = s\<lparr>zygote_map := fmupd pid st (zygote_map s)\<rparr> \<and>
            fmlookup (zygote_map (new_zygote w pid s)) pid = Some st \<and>
            (\<forall>q. q \<noteq> pid \<longrightarrow>
               fmlookup (zygote_map (new_zygote w pid s)) q = fmlookup (zygote_map s) q) \<and>
            fmdom (zygote_map (new_zygote w pid s)) = fmdom (zygote_map s) \<and>
            fcard (fmdom (zygote_map (new_zygote w pid s))) = fcard (fmdom (zygote_map s)) \<and>
            count_list (sorted_list_of_fset (fmdom (zygote_map (new_zygote w pid s)))) pid = 1 \<and>
            events (new_zygote w pid s) = events s) \<and>
         (read_ns w pid = None \<longrightarrow> new_zygote w pid s = s)"
proof -
  have dom: "pid |\<in>| fmdom (zygote_map s)" using assms by (rule fmdomI)
  then have ins: "finsert pid (fmdom (zygote_map s)) = fmdom (zygote_map s)" by auto
  have cnt: "count_list (sorted_list_of_fset (fmdom (zygote_map s))) pid = 1"
    using dom by (intro count_list_distinct distinct_sorted_list_of_fset) simp
  show ?thesis using assms ins cnt by (simp add: new_zygote_def)
qed

theorem new_zygote_registered_witness:
  "fmlookup (zygote_map demo_monitor) 600 = Some (mk_stat 4 4026531840 0) \<and>
   read_ns (demo_world\<lparr>proc_ns := \<lambda>pid. Some (mk_stat 4 77 0)\<rparr>) 600 = Some (mk_stat 4 77 0) \<and>
   fmlookup (zygote_map (new_zygote (demo_world\<lparr>proc_ns := \<lambda>pid. Some (mk_stat 4 77 0)\<rparr>) 600 demo_monitor)) 600
     = Some (mk_stat 4 77 0) \<and>
   fcard (fmdom (zygote_map (new_zygote (demo_world\<lparr>proc_ns := \<lambda>pid. Some (mk_stat 4 77 0)\<rparr>) 600 demo_monitor))) = 1 \<and>
   events (new_zygote (demo_world\<lparr>proc_ns := \<lambda>pid. Some (mk_stat 4 77 0)\<rparr>) 600 demo_monitor) = [] \<and>
   read_ns (demo_world\<lparr>proc_ns := \<lambda>pid. None\<rparr>) 600 = None \<and>
   new_zygote (demo_world\<lparr>proc_ns := \<lambda>pid. None\<rparr>) 600 demo_monitor = demo_monitor"
  using new_zygote_registered [of demo_monitor 600 "mk_stat 4 4026531840 0"
      "demo_world\<lparr>proc_ns := \<lambda>pid. Some (mk_stat 4 77 0)\<rparr>" "mk_stat 4 77 0"]
    new_zygote_registered [of demo_monitor 600 "mk_stat 4 4026531840 0"
      "demo_world\<lparr>proc_ns := \<lambda>pid. None\<rparr>" "mk_stat 4 77 0"]
  by (simp add: demo_monitor_def demo_world_def read_ns_def fcard_finsert_if)

lemma new_events_emit: "events s' = events s @ es \<Longrightarrow> new_events s s' = es"
  by (simp add: new_events_def)

lemma new_zygote_frame:
  "itimer (new_zygote w pid s) = itimer s"
  "hide_set (new_zygote w pid s) = hide_set s"
  "uid_proc_map (new_zygote w pid s) = uid_proc_map s"
  "attaches (new_zygote w pid s) = attaches s"
  "inotify_fd (new_zygote w pid s) = inotify_fd s"
  by (simp_all add: new_zygote_def emit_def split: option.splits)

lemma new_zygote_events:
  "\<exists>es. events (new_zygote w pid s) = events s @ es \<and> Setitimer 0 0 \<notin> set es"
  by (simp add: new_zygote_def emit_def split: option.splits)

lemma new_zygote_lookup:
  "read_ns w pid = Some st \<Longrightarrow> fmlookup (zygote_map (new_zygote w pid s)) pid = Some st"
  by (simp add: new_zygote_def emit_def split: option.splits)

lemma new_zygote_other:
  "q \<noteq> pid \<Longrightarrow> fmlookup (zygote_map (new_zygote w pid s)) q = fmlookup (zygote_map s) q"
  by (simp add: new_zygote_def emit_def split: option.splits)

lemma new_zygote_dom:
  "fmdom (zygote_map s) |\<subseteq>| fmdom (zygote_map (new_zygote w pid s))"
  by (auto simp add: new_zygote_def emit_def split: option.splits)

lemma crawl_frame:
  "itimer (crawl_procfs w pids s) = itimer s"
  "hide_set (crawl_procfs w pids s) = hide_set s"
  "uid_proc_map (crawl_procfs w pids s) = uid_proc_map s"
  "attaches (crawl_procfs w pids s) = attaches s"
  "inotify_fd (crawl_procfs w pids s) = inotify_fd s"
  by (induction pids arbitrary: s; simp add: new_zygote_frame)+

lemma crawl_events:
  "\<exists>es. events (crawl_procfs w pids s) = events s @ es \<and> Setitimer 0 0 \<notin> set es"
proof (induction pids arbitrary: s)
  case Nil
  show ?case by simp
next
  case (Cons pid pids)
  let ?s1 = "if is_zygote_proc w pid then new_zygote w pid s else s"
  obtain es1 where e1: "events ?s1 = events s @ es1" "Setitimer 0 0 \<notin> set es1"
    using new_zygote_events [of w pid s] by (cases "is_zygote_proc w pid") auto
  obtain es2 where e2: "events (crawl_procfs w pids ?s1) = events ?s1 @ es2"
      "Setitimer 0 0 \<notin> set es2"
    using Cons.IH [of ?s1] by blast
  have "events (crawl_procfs w (pid # pids) s) = events s @ (es1 @ es2)"
    using e1 e2 by simp
  moreover have "Setitimer 0 0 \<notin> set (es1 @ es2)" using e1 e2 by simp
  ultimately show ?case by blast
qed

lemma crawl_dom:
  "fmdom (zygote_map s) |\<subseteq>| fmdom (zygote_map (crawl_procfs w pids s))"
proof (induction pids arbitrary: s)
  case Nil
  show ?case by simp
next
  case (Cons pid pids)
  let ?s1 = "if is_zygote_proc w pid then new_zygote w pid s else s"
  have "fmdom (zygote_map s) |\<subseteq>| fmdom (zygote_map ?s1)"
    using new_zygote_dom [of s w pid] by simp
  also have "\<dots> |\<subseteq>| fmdom (zygote_map (crawl_procfs w pids ?s1))"
    by (rule Cons.IH)
  finally show ?case by simp
qed

lemma crawl_keeps:
  "fmlookup (zygote_map s) pid = Some st \<Longrightarrow> read_ns w pid = Some st \<Longrightarrow>
   fmlookup (zygote_map (crawl_procfs w pids s)) pid = Some st"
proof (induction pids arbitrary: s)
  case Nil
  then show ?case by simp
next
  case (Cons q pids)
  let ?s1 = "if is_zygote_proc w q then new_zygote w q s else s"
  have "fmlookup (zygote_map ?s1) pid = Some st"
    using Cons.prems new_zygote_lookup [of w pid st s] new_zygote_other [of pid q w s]
    by (cases "q = pid") auto
  then show ?case using Cons.IH [of ?s1] Cons.prems by simp
qed

lemma crawl_tracks:
  "pid \<in> set pids \<Longrightarrow> is_zygote_proc w pid \<Longrightarrow> read_ns w pid = Some st \<Longrightarrow>
   fmlookup (zygote_map (crawl_procfs w pids s)) pid = Some st"
proof (induction pids arbitrary: s)
  case Nil
  then show ?case by simp
next
  case (Cons q pids)
  show ?case
  proof (cases "q = pid")
    case True
    have "fmlookup (zygote_map (new_zygote w pid s)) pid = Some st"
      using Cons.prems by (simp add: new_zygote_lookup)
    then show ?thesis using True Cons.prems crawl_keeps by simp
  next
    case False
    then show ?thesis using Cons by simp
  qed
qed

text \<open>
  C7. \<^verbatim>\<open>check_zygote\<close> disarms the timer (\<^verbatim>\<open>setitimer\<close> with zero times) exactly when
  \<^verbatim>\<open>zygote_map\<close> holds at least the expected number of zygotes after the scan, two on a
  64-bit build and one on a 32-bit build, however many more there are. With fewer the
  scan leaves the timer as it was, so an armed timer stays armed. Every zygote the scan
  meets whose namespace can be read is in the map afterwards, with that namespace, and no
  entry is dropped.
\<close>

theorem check_zygote_timer:
  "(Setitimer 0 0 \<in> set (new_events s (check_zygote w s))
      \<longleftrightarrow> zygote_count w \<le> fcard (fmdom (zygote_map (check_zygote w s)))) \<and>
   (zygote_count w \<le> fcard (fmdom (zygote_map (check_zygote w s)))
      \<longrightarrow> itimer (check_zygote w s) = 0) \<and>
   (fcard (fmdom (zygote_map (check_zygote w s))) < zygote_count w
      \<longrightarrow> itimer (check_zygote w s) = itimer s) \<and>
   (\<forall>pid \<in> set (procfs_pids w). \<forall>st. is_zygote_proc w pid \<and> read_ns w pid = Some st
      \<longrightarrow> fmlookup (zygote_map (check_zygote w s)) pid = Some st) \<and>
   fmdom (zygote_map s) |\<subseteq>| fmdom (zygote_map (check_zygote w s))"
proof -
  let ?s1 = "crawl_procfs w (procfs_pids w) s"
  obtain es where es: "events ?s1 = events s @ es" "Setitimer 0 0 \<notin> set es"
    using crawl_events by blast
  have zm: "zygote_map (check_zygote w s) = zygote_map ?s1"
    by (simp add: check_zygote_def emit_def Let_def)
  have dn: "is_zygote_done w ?s1 \<longleftrightarrow> zygote_count w \<le> fcard (fmdom (zygote_map ?s1))"
    by (simp add: is_zygote_done_def zygote_count_def)
  have ev: "new_events s (check_zygote w s) = (if is_zygote_done w ?s1 then es @ [Setitimer 0 0] else es)"
    using es by (simp add: check_zygote_def emit_def Let_def new_events_def)
  have it: "itimer (check_zygote w s) = (if is_zygote_done w ?s1 then 0 else itimer s)"
    by (simp add: check_zygote_def emit_def Let_def crawl_frame)
  have tr: "\<forall>pid \<in> set (procfs_pids w). \<forall>st. is_zygote_proc w pid \<and> read_ns w pid = Some st
      \<longrightarrow> fmlookup (zygote_map ?s1) pid = Some st"
    using crawl_tracks by blast
  show ?thesis
    unfolding zm using dn ev it es tr crawl_dom [of s w "procfs_pids w"] by auto
qed

lemmas demo_simps =
  demo_world_def demo_monitor_def idle_monitor_def zygote_world_def check_zygote_def
  is_zygote_proc_def parse_ppid_def new_zygote_def read_ns_def is_zygote_done_def emit_def
  new_events_def zygote_count_def fcard_finsert_if fcard_fempty Let_def

theorem check_zygote_timer_witness:
  "zygote_count (zygote_world True [600]) = 2 \<and>
   fcard (fmdom (zygote_map (check_zygote (zygote_world True [600]) idle_monitor))) = 1 \<and>
   itimer (check_zygote (zygote_world True [600]) idle_monitor) = 250000 \<and>
   Setitimer 0 0 \<notin> set (new_events idle_monitor (check_zygote (zygote_world True [600]) idle_monitor)) \<and>
   fcard (fmdom (zygote_map (check_zygote (zygote_world True [600, 601]) idle_monitor))) = 2 \<and>
   itimer (check_zygote (zygote_world True [600, 601]) idle_monitor) = 0 \<and>
   Setitimer 0 0 \<in> set (new_events idle_monitor (check_zygote (zygote_world True [600, 601]) idle_monitor)) \<and>
   fcard (fmdom (zygote_map (check_zygote (zygote_world True [600, 601, 602]) idle_monitor))) = 3 \<and>
   itimer (check_zygote (zygote_world True [600, 601, 602]) idle_monitor) = 0 \<and>
   fmlookup (zygote_map (check_zygote (zygote_world True [600, 601, 602]) idle_monitor)) 602
     = Some (mk_stat 4 602 0) \<and>
   zygote_count (zygote_world False [600]) = 1 \<and>
   itimer (check_zygote (zygote_world False [600]) idle_monitor) = 0"
  using check_zygote_timer [of idle_monitor "zygote_world True [600]"]
    check_zygote_timer [of idle_monitor "zygote_world True [600, 601]"]
    check_zygote_timer [of idle_monitor "zygote_world True [600, 601, 602]"]
    check_zygote_timer [of idle_monitor "zygote_world False [600]"]
  by (simp add: demo_simps)

subsection \<open>The main loop and classification\<close>

lemma status_loop_skip:
  "\<forall>l \<in> set pre. fst l \<noteq> None \<and> fst l \<noteq> Some ''Tgid:'' \<Longrightarrow>
   status_loop w pid key (pre @ (Some ''Tgid:'', Some tgid) # post) = (tgid = pid)"
  by (induction pre arbitrary: key) (auto simp: Let_def split: option.splits)

lemma detach_pid_in_range:
  assumes "1 \<le> pid" "pid \<le> 32768"
  shows "detach_pid w pid signal s =
    Some (emit [Ptrace_detach pid (uint signal)] (s\<lparr>attaches := attaches s - {nat (pid - 1)}\<rparr>))"
  using assms pid_slot_of_pid [of pid w]
  by (simp add: detach_pid_def pid_set_put_def PID_MAX_def nat_less_iff)

lemma pid_set_get_in_range:
  assumes "1 \<le> pid" "pid \<le> 32768"
  shows "pid_set_get w bits (size_t_of_int w pid) = Some (nat (pid - 1) \<in> bits)"
  using assms pid_slot_of_pid [of pid w]
  by (simp add: pid_set_get_def PID_MAX_def nat_less_iff)

lemma pid_set_put_in_range:
  assumes "1 \<le> pid" "pid \<le> 32768"
  shows "pid_set_put w bits (size_t_of_int w pid) b =
    Some (if b then insert (nat (pid - 1)) bits else bits - {nat (pid - 1)})"
  using assms pid_slot_of_pid [of pid w]
  by (simp add: pid_set_put_def PID_MAX_def nat_less_iff)

text \<open>
  C9. A \<^verbatim>\<open>SIGSTOP\<close> stop of a pid (in the range of the bit set) whose bit is clear. When
  \<^verbatim>\<open>is_process\<close> is false the turn of the loop only detaches the pid: no
  \<^verbatim>\<open>PTRACE_SETOPTIONS\<close>, and the bit stays clear. When it is true the bit is set, the
  options \<^verbatim>\<open>TRACECLONE\<close>, \<^verbatim>\<open>TRACEEXEC\<close> and \<^verbatim>\<open>TRACEEXIT\<close> are set and the pid is
  continued. \<^verbatim>\<open>is_process\<close> is false when the status file cannot be opened, and it
  compares the pid with the number of the first \<^verbatim>\<open>Tgid:\<close> line otherwise.
\<close>

theorem sigstop_unmarked:
  assumes "WIFSTOPPED status" "WSTOPSIG status = SIGSTOP"
    and "1 \<le> pid" "pid \<le> 32768"
    and "pid_set_get w (attaches s) (size_t_of_int w pid) = Some False"
  shows "(\<not> is_process w pid \<longrightarrow>
            proc_monitor_iter w (Wait_pid pid status msg) s = Some (emit [Ptrace_detach pid 0] s)) \<and>
         (is_process w pid \<longrightarrow>
            proc_monitor_iter w (Wait_pid pid status msg) s =
              Some (emit [Ptrace_setoptions pid [TRACECLONE, TRACEEXEC, TRACEEXIT], Ptrace_cont pid 0]
                     (s\<lparr>attaches := insert (nat (pid - 1)) (attaches s)\<rparr>))) \<and>
         (proc_status w pid = None \<longrightarrow> \<not> is_process w pid) \<and>
         (\<forall>pre tgid post.
            proc_status w pid = Some (pre @ (Some ''Tgid:'', Some tgid) # post) \<and>
            (\<forall>l \<in> set pre. fst l \<noteq> None \<and> fst l \<noteq> Some ''Tgid:'')
            \<longrightarrow> is_process w pid = (tgid = pid))"
proof -
  have clear: "nat (pid - 1) \<notin> attaches s"
    using assms(3-5) by (simp add: pid_set_get_in_range)
  then have same: "s\<lparr>attaches := attaches s - {nat (pid - 1)}\<rparr> = s" by simp
  have iter: "proc_monitor_iter w (Wait_pid pid status msg) s = sigstop_event w pid s"
    using assms(1,2) by (simp add: proc_monitor_iter_def SIGSTOP_def SIGTRAP_def Let_def)
  have thread: "\<not> is_process w pid \<Longrightarrow> sigstop_event w pid s = Some (emit [Ptrace_detach pid 0] s)"
    using assms(3,4) clear same
    by (simp add: sigstop_event_def pid_set_get_in_range pid_set_put_in_range detach_pid_in_range)
  have leader: "is_process w pid \<Longrightarrow> sigstop_event w pid s =
      Some (emit [Ptrace_setoptions pid [TRACECLONE, TRACEEXEC, TRACEEXIT], Ptrace_cont pid 0]
             (s\<lparr>attaches := insert (nat (pid - 1)) (attaches s)\<rparr>))"
    using assms(3,4) clear
    by (simp add: sigstop_event_def pid_set_get_in_range pid_set_put_in_range ptrace_cont_def emit_def)
  have unreadable: "proc_status w pid = None \<longrightarrow> \<not> is_process w pid"
    by (simp add: is_process_def)
  have tgid: "\<forall>pre tgid post.
            proc_status w pid = Some (pre @ (Some ''Tgid:'', Some tgid) # post) \<and>
            (\<forall>l \<in> set pre. fst l \<noteq> None \<and> fst l \<noteq> Some ''Tgid:'')
            \<longrightarrow> is_process w pid = (tgid = pid)"
    by (auto simp: is_process_def status_loop_skip)
  show ?thesis using iter thread leader unreadable tgid by simp
qed

lemmas run_simps =
  demo_world_def demo_monitor_def idle_monitor_def proc_monitor_iter_def sigstop_event_def
  WIFSTOPPED_def WSTOPSIG_def WEVENT_def SIGSTOP_def SIGTRAP_def is_process_def emit_def
  ptrace_cont_def Let_def

theorem sigstop_unmarked_witness:
  "WIFSTOPPED 0x137f \<and> WSTOPSIG 0x137f = SIGSTOP \<and>
   pid_set_get demo_world (attaches demo_monitor) (size_t_of_int demo_world 4201) = Some False \<and>
   \<not> is_process demo_world 4201 \<and>
   proc_monitor_iter demo_world (Wait_pid 4201 0x137f 0) demo_monitor
     = Some (demo_monitor\<lparr>events := [Ptrace_detach 4201 0]\<rparr>) \<and>
   pid_set_get demo_world (attaches idle_monitor) (size_t_of_int demo_world 4200) = Some False \<and>
   is_process demo_world 4200 \<and>
   proc_monitor_iter demo_world (Wait_pid 4200 0x137f 0) idle_monitor
     = Some (idle_monitor\<lparr>attaches := {4199},
          events := [Ptrace_setoptions 4200 [TRACECLONE, TRACEEXEC, TRACEEXIT], Ptrace_cont 4200 0]\<rparr>) \<and>
   proc_status demo_world 600 = None \<and> \<not> is_process demo_world 600"
  using sigstop_unmarked [of "0x137f" 4201 demo_world demo_monitor 0]
    sigstop_unmarked [of "0x137f" 4200 demo_world idle_monitor 0]
    sigstop_unmarked [of "0x137f" 600 demo_world idle_monitor 0]
  by (simp add: run_simps pid_set_get_in_range)

lemma hide_set_emit [simp]: "hide_set (emit es s) = hide_set s"
  by (simp add: emit_def)

lemma detach_pid_hide_set: "detach_pid w pid sg s = Some s' \<Longrightarrow> hide_set s' = hide_set s"
  by (auto simp: detach_pid_def split: option.splits)

lemma not_target_hide_set: "not_target w pid s = Some (r, s') \<Longrightarrow> hide_set s' = hide_set s"
  by (auto simp: not_target_def dest: detach_pid_hide_set)

lemma inject_and_hide_hide_set:
  "inject_and_hide w pid s = Some (r, s') \<Longrightarrow> hide_set s' = hide_set s"
  by (auto simp: inject_and_hide_def dest: detach_pid_hide_set)

lemma match_loop_hide_set:
  "match_loop w pid uid cmdline st names s = Some (r, s') \<Longrightarrow> hide_set s' = hide_set s"
proof (induction names)
  case Nil
  then show ?case by (auto dest: not_target_hide_set)
next
  case (Cons n names)
  then show ?case
    by (auto simp: Let_def split: if_splits option.splits
        dest!: not_target_hide_set inject_and_hide_hide_set detach_pid_hide_set)
qed

lemma lookup_uid_hide_set:
  "lookup_uid w pid uid cmdline st s = Some (r, s') \<Longrightarrow> hide_set s' = hide_set s"
  by (auto simp: lookup_uid_def split: option.splits
      dest: not_target_hide_set match_loop_hide_set)

lemma check_pid_cases:
  "check_pid w pid s = map_option (Pair True) (detach_pid w pid 0 s) \<or>
   check_pid w pid s = Some (False, s) \<or>
   check_pid w pid s = not_target w pid s \<or>
   (\<exists>m. check_pid w pid s = inject_and_hide w pid (emit [Log m] s)) \<or>
   (\<exists>uid cmdline st. check_pid w pid s = lookup_uid w pid uid cmdline st s)"
proof (cases "proc_stat w pid")
  case None
  then show ?thesis by (simp add: check_pid_def)
next
  case (Some st)
  show ?thesis
  proof (cases "proc_cmdline w pid")
    case None
    then show ?thesis using Some by (simp add: check_pid_def)
  next
    case line: (Some line)
    show ?thesis
      unfolding check_pid_def Let_def Some line option.case
      by (cases "fmlookup (uid_proc_map s) (- 1)") auto
  qed
qed

lemma check_pid_hide_set:
  assumes "check_pid w pid s = Some (r, s')"
  shows "hide_set s' = hide_set s"
  using check_pid_cases [of w pid s]
proof (elim disjE exE)
  assume "check_pid w pid s = map_option (Pair True) (detach_pid w pid 0 s)"
  then show ?thesis using assms
    by (cases "detach_pid w pid 0 s") (auto dest: detach_pid_hide_set)
next
  assume "check_pid w pid s = Some (False, s)"
  then show ?thesis using assms by simp
next
  assume "check_pid w pid s = not_target w pid s"
  then show ?thesis using assms not_target_hide_set by metis
next
  fix m assume "check_pid w pid s = inject_and_hide w pid (emit [Log m] s)"
  then show ?thesis using assms inject_and_hide_hide_set hide_set_emit by metis
next
  fix uid cmdline st assume "check_pid w pid s = lookup_uid w pid uid cmdline st s"
  then show ?thesis using assms lookup_uid_hide_set by metis
qed

lemma update_uid_map_hide_set: "hide_set (update_uid_map w s) = hide_set s"
  by (simp add: update_uid_map_def)

lemma check_zygote_hide_set: "hide_set (check_zygote w s) = hide_set s"
  by (simp add: check_zygote_def Let_def crawl_frame)

lemma inotify_event_hide_set: "hide_set (inotify_event w ev s) = hide_set s"
  by (simp add: inotify_event_def check_zygote_hide_set update_uid_map_hide_set
      split: option.splits prod.splits)

lemma zygote_event_hide_set:
  "zygote_event w pid event msg s = Some s' \<Longrightarrow> hide_set s' = hide_set s"
  by (auto simp: zygote_event_def ptrace_cont_def split: if_splits option.splits
      dest!: detach_pid_hide_set)

lemma child_event_hide_set:
  "child_event w pid event s = Some s' \<Longrightarrow> hide_set s' = hide_set s"
  by (auto simp: child_event_def ptrace_cont_def split: if_splits option.splits bool.splits
      dest!: detach_pid_hide_set check_pid_hide_set)

lemma sigstop_event_hide_set:
  "sigstop_event w pid s = Some s' \<Longrightarrow> hide_set s' = hide_set s"
  by (auto simp: sigstop_event_def ptrace_cont_def split: if_splits option.splits bool.splits
      dest!: detach_pid_hide_set)

lemma proc_monitor_iter_cases:
  "(\<exists>es. proc_monitor_iter w r s = Some (emit es s)) \<or>
   (\<exists>pid. proc_monitor_iter w r s = detach_pid w pid 0 s) \<or>
   (\<exists>pid event msg es. proc_monitor_iter w r s = zygote_event w pid event msg (emit es s)) \<or>
   (\<exists>pid event es. proc_monitor_iter w r s = child_event w pid event (emit es s)) \<or>
   (\<exists>pid. proc_monitor_iter w r s = sigstop_event w pid s)"
proof (cases r)
  case (Wait_failed errno)
  have "s = emit [] s" by (simp add: emit_def)
  then show ?thesis using Wait_failed by (auto simp: proc_monitor_iter_def)
next
  case (Wait_pid pid status msg)
  show ?thesis
    unfolding proc_monitor_iter_def Let_def Wait_pid wait_result.case ptrace_cont_def
    by (simp only: split: if_split) blast
qed

lemma proc_monitor_iter_hide_set:
  assumes "proc_monitor_iter w r s = Some s'"
  shows "hide_set s' = hide_set s"
  using proc_monitor_iter_cases [of w r s]
proof (elim disjE exE)
  fix es assume "proc_monitor_iter w r s = Some (emit es s)"
  then show ?thesis using assms by auto
next
  fix pid assume "proc_monitor_iter w r s = detach_pid w pid 0 s"
  then show ?thesis using assms detach_pid_hide_set by metis
next
  fix pid event msg es
  assume "proc_monitor_iter w r s = zygote_event w pid event msg (emit es s)"
  then show ?thesis using assms zygote_event_hide_set hide_set_emit by metis
next
  fix pid event es
  assume "proc_monitor_iter w r s = child_event w pid event (emit es s)"
  then show ?thesis using assms child_event_hide_set hide_set_emit by metis
next
  fix pid assume "proc_monitor_iter w r s = sigstop_event w pid s"
  then show ?thesis using assms sigstop_event_hide_set by metis
qed

lemma proc_monitor_start_hide_set:
  "0 \<le> inotify_init_fd w \<Longrightarrow> hide_set (snd (proc_monitor_start w s)) = hide_set s"
  by (simp add: proc_monitor_start_def setup_inotify_def Let_def check_zygote_hide_set)

text \<open>
  C8, as amended. Refreshing the uid map, attaching to a zygote, scanning for zygotes, the
  inotify handler, classification, a turn of the main loop and the start of the monitor
  (when inotify can be set up) leave \<^verbatim>\<open>hide_set\<close> as it is. \<^verbatim>\<open>term_thread\<close> clears it,
  also when it is called because inotify cannot be set up.
\<close>

theorem hide_set_frame:
  "hide_set (update_uid_map w s) = hide_set s \<and>
   hide_set (new_zygote w pid s) = hide_set s \<and>
   hide_set (check_zygote w s) = hide_set s \<and>
   hide_set (inotify_event w ev s) = hide_set s \<and>
   (\<forall>r s'. check_pid w pid s = Some (r, s') \<longrightarrow> hide_set s' = hide_set s) \<and>
   (\<forall>s'. proc_monitor_iter w wr s = Some s' \<longrightarrow> hide_set s' = hide_set s) \<and>
   (0 \<le> inotify_init_fd w \<longrightarrow> hide_set (snd (proc_monitor_start w s)) = hide_set s) \<and>
   hide_set (term_thread s) = [] \<and>
   (inotify_init_fd w < 0 \<longrightarrow> hide_set (snd (proc_monitor_start w s)) = [])"
proof (intro conjI allI impI)
  show "hide_set (update_uid_map w s) = hide_set s" by (rule update_uid_map_hide_set)
  show "hide_set (new_zygote w pid s) = hide_set s" by (rule new_zygote_frame)
  show "hide_set (check_zygote w s) = hide_set s" by (rule check_zygote_hide_set)
  show "hide_set (inotify_event w ev s) = hide_set s" by (rule inotify_event_hide_set)
  show "hide_set s' = hide_set s" if "check_pid w pid s = Some (r, s')" for r s'
    using that by (rule check_pid_hide_set)
  show "hide_set s' = hide_set s" if "proc_monitor_iter w wr s = Some s'" for s'
    using that by (rule proc_monitor_iter_hide_set)
  show "hide_set (snd (proc_monitor_start w s)) = hide_set s" if "0 \<le> inotify_init_fd w"
    using that by (rule proc_monitor_start_hide_set)
  show "hide_set (term_thread s) = []" by (simp add: term_thread_def)
  show "hide_set (snd (proc_monitor_start w s)) = []" if "inotify_init_fd w < 0"
    using that by (simp add: proc_monitor_start_def setup_inotify_def term_thread_def)
qed

text \<open>
  C8 as stated fails for termination: \<^verbatim>\<open>term_thread\<close> empties a \<^verbatim>\<open>hide_set\<close> that holds a
  pair.
\<close>

theorem term_thread_clears_hide_set:
  "hide_set demo_monitor = [(''com.example.target'', ''com.example.target'')] \<and>
   hide_set (term_thread demo_monitor) = []"
  by (simp add: demo_monitor_def term_thread_def)

text \<open>
  C4. \<^verbatim>\<open>update_uid_map\<close> is idempotent: a second call in the same environment changes
  nothing. The map it builds depends on \<^verbatim>\<open>hide_set\<close> and on the environment only: two
  states with the same \<^verbatim>\<open>hide_set\<close> get the same map, whatever map they held before.
\<close>

theorem update_uid_map_idempotent:
  "update_uid_map w (update_uid_map w s) = update_uid_map w s \<and>
   (hide_set s2 = hide_set s \<longrightarrow>
      uid_proc_map (update_uid_map w s2) = uid_proc_map (update_uid_map w s)) \<and>
   uid_proc_map (update_uid_map w (s\<lparr>uid_proc_map := m\<rparr>)) = uid_proc_map (update_uid_map w s)"
  by (simp add: update_uid_map_def)

lemma ns_of_zygote_iff:
  "ns_of_zygote s st \<longleftrightarrow> (\<exists>z zst. fmlookup (zygote_map s) z = Some zst \<and> same_ns zst st)"
proof
  assume "ns_of_zygote s st"
  then obtain z where z: "z |\<in>| fmdom (zygote_map s)"
      "(case fmlookup (zygote_map s) z of None \<Rightarrow> False | Some zst \<Rightarrow> same_ns zst st)"
    by (auto simp: ns_of_zygote_def list_ex_iff)
  then show "\<exists>z zst. fmlookup (zygote_map s) z = Some zst \<and> same_ns zst st"
    by (cases "fmlookup (zygote_map s) z") auto
next
  assume "\<exists>z zst. fmlookup (zygote_map s) z = Some zst \<and> same_ns zst st"
  then obtain z zst where z: "fmlookup (zygote_map s) z = Some zst" "same_ns zst st" by blast
  then have "z |\<in>| fmdom (zygote_map s)" by (simp add: fmdomI)
  then show "ns_of_zygote s st"
    using z by (auto simp: ns_of_zygote_def list_ex_iff intro!: bexI [of _ z])
qed

lemma match_loop_hit:
  assumes "cmdline \<in> set names"
  shows "match_loop w pid uid cmdline st names s =
     (if str_ends cmdline ''_zygote''
      then inject_and_hide w pid (emit [Log (Msg_app_zygote cmdline pid uid)] s)
      else if ns_of_zygote s (case read_ns w pid of None \<Rightarrow> st | Some ns \<Rightarrow> ns)
      then not_target w pid s
      else (case detach_pid w pid SIGSTOP (emit [Log (Msg_target cmdline pid uid)] s) of
              None \<Rightarrow> None
            | Some s1 \<Rightarrow> Some (True, emit [Hide_daemon pid] s1)))"
  using assms by (induction names) (auto simp: Let_def)

lemma match_loop_miss:
  assumes "cmdline \<notin> set names"
  shows "match_loop w pid uid cmdline st names s = not_target w pid s"
  using assms by (induction names) auto

lemma check_pid_classify:
  assumes "proc_stat w pid = Some st" "st_uid st \<noteq> 0"
    and "proc_cmdline w pid = Some (Some cmdline)" "cmdline \<notin> set zygote_names"
  shows "check_pid w pid s =
     (if 90000 < sint (st_uid st) smod 100000
      then (case fmlookup (uid_proc_map s) (- 1) of
              None \<Rightarrow> not_target w pid s
            | Some patterns \<Rightarrow>
                if list_ex (str_starts cmdline) patterns
                then inject_and_hide w pid (emit [Log (Msg_isolated cmdline pid (sint (st_uid st)))] s)
                else lookup_uid w pid (sint (st_uid st)) cmdline st s)
      else lookup_uid w pid (sint (st_uid st)) cmdline st s)"
  using assms by (simp add: check_pid_def Let_def)

text \<open>
  C1. A pid (in the range of the bit set) that \<^verbatim>\<open>check_pid\<close> takes to its last branch:
  \<^verbatim>\<open>/proc/<pid>\<close> exists with a uid that is not root, the command line can be read and
  is none of the zygote names, the code for isolated uids lets it through, the command
  line equals a name configured for the uid and does not end in \<^verbatim>\<open>_zygote\<close>, and the
  mount namespace differs from that of every entry of \<^verbatim>\<open>zygote_map\<close>. Then \<^verbatim>\<open>check_pid\<close>
  returns true, and what it does is, in this order: the log line, \<^verbatim>\<open>PTRACE_DETACH\<close> with
  \<^verbatim>\<open>SIGSTOP\<close>, and one call of \<^verbatim>\<open>hide_daemon\<close> with the pid. The bit of the pid is clear
  afterwards, so that a later clone stop of the pid would be continued without a second
  classification.
\<close>

theorem check_pid_target:
  assumes "1 \<le> pid" "pid \<le> 32768"
    and "proc_stat w pid = Some st" "st_uid st \<noteq> 0"
    and "proc_cmdline w pid = Some (Some cmdline)" "cmdline \<notin> set zygote_names"
    and "\<not> 90000 < sint (st_uid st) smod 100000 \<or>
         (\<exists>patterns. fmlookup (uid_proc_map s) (- 1) = Some patterns \<and>
                     \<not> list_ex (str_starts cmdline) patterns)"
    and "fmlookup (uid_proc_map s) (sint (st_uid st)) = Some names" "cmdline \<in> set names"
    and "\<not> str_ends cmdline ''_zygote''"
    and "read_ns w pid = Some ns"
    and "\<forall>z zst. fmlookup (zygote_map s) z = Some zst \<longrightarrow> \<not> same_ns zst ns"
  shows "\<exists>s'. check_pid w pid s = Some (True, s') \<and>
           new_events s s' =
             [Log (Msg_target cmdline pid (sint (st_uid st))),
              Ptrace_detach pid (uint SIGSTOP), Hide_daemon pid] \<and>
           count_list (new_events s s') (Hide_daemon pid) = 1 \<and>
           pid_set_get w (attaches s') (size_t_of_int w pid) = Some False \<and>
           child_event w pid PTRACE_EVENT_CLONE s' = Some (ptrace_cont pid 0 s') \<and>
           s' = s\<lparr>attaches := attaches s - {nat (pid - 1)}, events := events s @ new_events s s'\<rparr>"
proof -
  let ?uid = "sint (st_uid st)"
  have lk: "check_pid w pid s = lookup_uid w pid ?uid cmdline st s"
    using assms(7) by (auto simp: check_pid_classify [OF assms(3-6)])
  have nz: "\<not> ns_of_zygote s ns" using assms(12) by (simp add: ns_of_zygote_iff)
  have "lookup_uid w pid ?uid cmdline st s =
      Some (True, emit [Hide_daemon pid]
        (emit [Ptrace_detach pid (uint SIGSTOP)]
          ((emit [Log (Msg_target cmdline pid ?uid)] s)
             \<lparr>attaches := attaches s - {nat (pid - 1)}\<rparr>)))"
    using assms(8-11) nz assms(1,2)
    by (simp add: lookup_uid_def match_loop_hit detach_pid_in_range emit_def)
  then show ?thesis
    using lk assms(1,2)
    by (simp add: emit_def new_events_def pid_set_get_in_range child_event_def SIGSTOP_def)
qed

lemma not_target_in_range:
  assumes "1 \<le> pid" "pid \<le> 32768"
  shows "not_target w pid s =
    Some (True, s\<lparr>attaches := attaches s - {nat (pid - 1)}, events := events s @ [Ptrace_detach pid 0]\<rparr>)"
  using assms by (simp add: not_target_def detach_pid_in_range emit_def)

lemma inject_and_hide_in_range:
  assumes "1 \<le> pid" "pid \<le> 32768"
  shows "inject_and_hide w pid s =
    Some (True, s\<lparr>attaches := attaches s - {nat (pid - 1)},
                   events := events s @ [Ptrace_detach pid 0]\<rparr>)"
  using assms by (simp add: inject_and_hide_def detach_pid_in_range emit_def)

lemma lookup_uid_shape:
  assumes "1 \<le> pid" "pid \<le> 32768"
  shows "lookup_uid w pid uid cmdline st s =
            Some (True, s\<lparr>attaches := attaches s - {nat (pid - 1)},
                           events := events s @ [Ptrace_detach pid 0]\<rparr>) \<or>
         lookup_uid w pid uid cmdline st s =
            Some (True, s\<lparr>attaches := attaches s - {nat (pid - 1)},
                           events := events s @ [Log (Msg_app_zygote cmdline pid uid),
                                                 Ptrace_detach pid 0]\<rparr>) \<or>
         lookup_uid w pid uid cmdline st s =
            Some (True, s\<lparr>attaches := attaches s - {nat (pid - 1)},
                           events := events s @ [Log (Msg_target cmdline pid uid),
                                                 Ptrace_detach pid (uint SIGSTOP),
                                                 Hide_daemon pid]\<rparr>)"
proof (cases "fmlookup (uid_proc_map s) uid")
  case None
  then show ?thesis using assms by (simp add: lookup_uid_def not_target_in_range)
next
  case (Some names)
  show ?thesis
  proof (cases "cmdline \<in> set names")
    case True
    then show ?thesis
      using assms Some
      by (simp add: lookup_uid_def match_loop_hit not_target_in_range inject_and_hide_in_range
          detach_pid_in_range emit_def)
  next
    case False
    then show ?thesis
      using assms Some by (simp add: lookup_uid_def match_loop_miss not_target_in_range)
  qed
qed

text \<open>
  Conversely \<^verbatim>\<open>check_pid\<close> calls \<^verbatim>\<open>hide_daemon\<close> in that branch only: whenever the call
  is among the new events, it is for the pid that was classified, and the new events are
  the log line, the detach with \<^verbatim>\<open>SIGSTOP\<close> and the call.
\<close>

lemma check_pid_handoff_only:
  assumes "1 \<le> pid" "pid \<le> 32768"
    and "check_pid w pid s = Some (r, s')" "Hide_daemon q \<in> set (new_events s s')"
  shows "q = pid \<and> r \<and>
         (\<exists>cmdline uid. new_events s s' =
            [Log (Msg_target cmdline pid uid), Ptrace_detach pid (uint SIGSTOP), Hide_daemon pid])"
  using check_pid_cases [of w pid s]
proof (elim disjE exE)
  assume "check_pid w pid s = map_option (Pair True) (detach_pid w pid 0 s)"
  then show ?thesis
    using assms by (auto simp: detach_pid_in_range emit_def new_events_def)
next
  assume "check_pid w pid s = Some (False, s)"
  then show ?thesis using assms by (auto simp: new_events_def)
next
  assume "check_pid w pid s = not_target w pid s"
  then show ?thesis using assms by (auto simp: not_target_in_range new_events_def)
next
  fix m assume "check_pid w pid s = inject_and_hide w pid (emit [Log m] s)"
  then show ?thesis
    using assms by (auto simp: inject_and_hide_in_range emit_def new_events_def)
next
  fix uid cmdline st assume "check_pid w pid s = lookup_uid w pid uid cmdline st s"
  then show ?thesis
    using assms lookup_uid_shape [OF assms(1,2), of w uid cmdline st s]
    by (auto simp: new_events_def)
qed

text \<open>
  C6. The branch for isolated processes is taken exactly when \<^verbatim>\<open>uid % 100000 > 90000\<close>,
  for the \<^verbatim>\<open>int\<close> that \<^verbatim>\<open>st_uid\<close> converts to. At a remainder of 90000 the result of
  \<^verbatim>\<open>check_pid\<close> is that of the lookup of the uid alone, whatever the bucket of key -1 holds.
  At 90001 the bucket decides: without it the pid is not a target, with a pattern that is
  a prefix of the command line the result is the log line for isolated processes and a
  plain detach. With such a pattern in the bucket, \<^verbatim>\<open>check_pid\<close> writes that log line if
  and only if the remainder is above 90000.
\<close>

theorem check_pid_isolated_range:
  assumes "1 \<le> pid" "pid \<le> 32768"
    and "proc_stat w pid = Some st" "st_uid st \<noteq> 0"
    and "proc_cmdline w pid = Some (Some cmdline)" "cmdline \<notin> set zygote_names"
  shows "(sint (st_uid st) smod 100000 = 90000 \<longrightarrow>
            check_pid w pid s = lookup_uid w pid (sint (st_uid st)) cmdline st s) \<and>
         (sint (st_uid st) smod 100000 = 90001 \<longrightarrow>
            check_pid w pid s =
              (case fmlookup (uid_proc_map s) (- 1) of
                 None \<Rightarrow> not_target w pid s
               | Some patterns \<Rightarrow>
                   if list_ex (str_starts cmdline) patterns
                   then Some (True, s\<lparr>attaches := attaches s - {nat (pid - 1)},
                          events := events s @ [Log (Msg_isolated cmdline pid (sint (st_uid st))),
                                                Ptrace_detach pid 0]\<rparr>)
                   else lookup_uid w pid (sint (st_uid st)) cmdline st s)) \<and>
         (\<forall>patterns.
            fmlookup (uid_proc_map s) (- 1) = Some patterns \<and> list_ex (str_starts cmdline) patterns
            \<longrightarrow> (\<exists>s'. check_pid w pid s = Some (True, s') \<and>
                   (Log (Msg_isolated cmdline pid (sint (st_uid st))) \<in> set (new_events s s')
                      \<longleftrightarrow> 90000 < sint (st_uid st) smod 100000)))"
proof -
  let ?uid = "sint (st_uid st)"
  let ?iso = "s\<lparr>attaches := attaches s - {nat (pid - 1)},
      events := events s @ [Log (Msg_isolated cmdline pid ?uid), Ptrace_detach pid 0]\<rparr>"
  note cl = check_pid_classify [OF assms(3-6), of s]
  have reg: "\<not> 90000 < ?uid smod 100000 \<Longrightarrow>
      check_pid w pid s = lookup_uid w pid ?uid cmdline st s"
    by (simp add: cl)
  have iso: "90000 < ?uid smod 100000 \<Longrightarrow> check_pid w pid s =
      (case fmlookup (uid_proc_map s) (- 1) of
         None \<Rightarrow> not_target w pid s
       | Some patterns \<Rightarrow>
           if list_ex (str_starts cmdline) patterns then Some (True, ?iso)
           else lookup_uid w pid ?uid cmdline st s)"
    using assms(1,2) by (simp add: cl inject_and_hide_in_range emit_def split: option.splits)
  have obs: "\<exists>s'. check_pid w pid s = Some (True, s') \<and>
            (Log (Msg_isolated cmdline pid ?uid) \<in> set (new_events s s')
               \<longleftrightarrow> 90000 < ?uid smod 100000)"
    if b: "fmlookup (uid_proc_map s) (- 1) = Some patterns" "list_ex (str_starts cmdline) patterns"
    for patterns
  proof (cases "90000 < ?uid smod 100000")
    case True
    then have "check_pid w pid s = Some (True, ?iso)" using iso b by simp
    then show ?thesis using True by (simp add: new_events_def)
  next
    case False
    then show ?thesis
      using reg lookup_uid_shape [OF assms(1,2), of w ?uid cmdline st s]
      by (auto simp: new_events_def)
  qed
  show ?thesis using reg iso obs by simp
qed

text \<open>
  C2, as amended. A pid whose uid and command line match a configured name and whose mount
  namespace is that of an entry of \<^verbatim>\<open>zygote_map\<close>: \<^verbatim>\<open>check_pid\<close> returns true after
  \<^verbatim>\<open>PTRACE_DETACH\<close> without a signal (after at most a log line), \<^verbatim>\<open>hide_daemon\<close> is not
  called, and the bit of the pid is clear, so that a later clone stop of the pid would be
  continued without classification.
\<close>

theorem check_pid_shared_ns:
  assumes "1 \<le> pid" "pid \<le> 32768"
    and "proc_stat w pid = Some st" "st_uid st \<noteq> 0"
    and "proc_cmdline w pid = Some (Some cmdline)" "cmdline \<notin> set zygote_names"
    and "fmlookup (uid_proc_map s) (sint (st_uid st)) = Some names" "cmdline \<in> set names"
    and "read_ns w pid = Some ns"
    and "fmlookup (zygote_map s) z = Some zst" "same_ns zst ns"
  shows "\<exists>s' logs. check_pid w pid s = Some (True, s') \<and>
           new_events s s' = logs @ [Ptrace_detach pid 0] \<and>
           (logs = [] \<or> (\<exists>m. logs = [Log m])) \<and>
           Hide_daemon pid \<notin> set (new_events s s') \<and>
           pid_set_get w (attaches s') (size_t_of_int w pid) = Some False \<and>
           child_event w pid PTRACE_EVENT_CLONE s' = Some (ptrace_cont pid 0 s') \<and>
           (\<not> 90000 < sint (st_uid st) smod 100000 \<and> \<not> str_ends cmdline ''_zygote''
              \<longrightarrow> logs = [])"
proof -
  let ?uid = "sint (st_uid st)"
  let ?s = "\<lambda>es. s\<lparr>attaches := attaches s - {nat (pid - 1)}, events := events s @ es\<rparr>"
  let ?plain = "\<not> 90000 < ?uid smod 100000 \<and> \<not> str_ends cmdline ''_zygote''"
  note cl = check_pid_classify [OF assms(3-6), of s]
  have shared: "ns_of_zygote s ns" using assms(10,11) by (auto simp: ns_of_zygote_iff)
  have lk: "lookup_uid w pid ?uid cmdline st s =
      (if str_ends cmdline ''_zygote''
       then Some (True, ?s ([Log (Msg_app_zygote cmdline pid ?uid)] @ [Ptrace_detach pid 0]))
       else Some (True, ?s ([] @ [Ptrace_detach pid 0])))"
    using assms(1,2,7,8,9) shared
    by (simp add: lookup_uid_def match_loop_hit inject_and_hide_in_range not_target_in_range
        emit_def)
  have "\<exists>logs. check_pid w pid s = Some (True, ?s (logs @ [Ptrace_detach pid 0])) \<and>
          (logs = [] \<or> (\<exists>m. logs = [Log m])) \<and> (?plain \<longrightarrow> logs = [])"
  proof (cases "90000 < ?uid smod 100000")
    case False
    then have eq: "check_pid w pid s = lookup_uid w pid ?uid cmdline st s" by (simp add: cl)
    show ?thesis
    proof (cases "str_ends cmdline ''_zygote''")
      case True
      then have "check_pid w pid s =
          Some (True, ?s ([Log (Msg_app_zygote cmdline pid ?uid)] @ [Ptrace_detach pid 0]))"
        using eq lk by simp
      then show ?thesis using True by blast
    next
      case False
      then have "check_pid w pid s = Some (True, ?s ([] @ [Ptrace_detach pid 0]))"
        using eq lk by simp
      then show ?thesis by blast
    qed
  next
    case True
    show ?thesis
    proof (cases "fmlookup (uid_proc_map s) (- 1)")
      case None
      then have "check_pid w pid s = Some (True, ?s ([] @ [Ptrace_detach pid 0]))"
        using True assms(1,2) by (simp add: cl not_target_in_range)
      then show ?thesis using True by blast
    next
      case (Some patterns)
      show ?thesis
      proof (cases "list_ex (str_starts cmdline) patterns")
        case hit: True
        have "check_pid w pid s =
            Some (True, ?s ([Log (Msg_isolated cmdline pid ?uid)] @ [Ptrace_detach pid 0]))"
          using True Some hit assms(1,2) by (simp add: cl inject_and_hide_in_range emit_def)
        then show ?thesis using True by blast
      next
        case miss: False
        then have eq: "check_pid w pid s = lookup_uid w pid ?uid cmdline st s"
          using True Some by (simp add: cl)
        show ?thesis
        proof (cases "str_ends cmdline ''_zygote''")
          case z: True
          then have "check_pid w pid s =
              Some (True, ?s ([Log (Msg_app_zygote cmdline pid ?uid)] @ [Ptrace_detach pid 0]))"
            using eq lk by simp
          then show ?thesis using True by blast
        next
          case z: False
          then have "check_pid w pid s = Some (True, ?s ([] @ [Ptrace_detach pid 0]))"
            using eq lk by simp
          then show ?thesis by blast
        qed
      qed
    qed
  qed
  then obtain logs where logs: "check_pid w pid s = Some (True, ?s (logs @ [Ptrace_detach pid 0]))"
      "logs = [] \<or> (\<exists>m. logs = [Log m])" "?plain \<longrightarrow> logs = []"
    by blast
  have ne: "new_events s (?s (logs @ [Ptrace_detach pid 0])) = logs @ [Ptrace_detach pid 0]"
    by (simp add: new_events_def)
  have nh: "Hide_daemon pid \<notin> set (logs @ [Ptrace_detach pid 0])" using logs(2) by auto
  have bit: "pid_set_get w (attaches (?s (logs @ [Ptrace_detach pid 0]))) (size_t_of_int w pid) = Some False"
    using assms(1,2) by (simp add: pid_set_get_in_range)
  have later: "child_event w pid PTRACE_EVENT_CLONE (?s (logs @ [Ptrace_detach pid 0])) =
      Some (ptrace_cont pid 0 (?s (logs @ [Ptrace_detach pid 0])))"
    using bit by (simp add: child_event_def)
  show ?thesis
    apply (rule exI [of _ "?s (logs @ [Ptrace_detach pid 0])"])
    apply (rule exI [of _ logs])
    using logs ne nh bit later by simp
qed

lemmas world_simps =
  demo_world_def demo_monitor_def idle_monitor_def shared_world_def uid_world_def
  iso_monitor_def zygote_world_def mk_stat_def

lemmas check_pid_simps =
  check_pid_def lookup_uid_def not_target_def inject_and_hide_def detach_pid_in_range
  emit_def zygote_names_def str_ends_def str_starts_def ns_of_zygote_iff same_ns_def
  read_ns_def signed_modulo_int_def Let_def

lemma demo_target_run:
  "check_pid demo_world 4200 demo_monitor =
     Some (True, demo_monitor\<lparr>attaches := {},
       events := [Log (Msg_target ''com.example.target'' 4200 10042),
                  Ptrace_detach 4200 19, Hide_daemon 4200]\<rparr>)"
  by (simp add: world_simps check_pid_simps SIGSTOP_def)

lemma demo_shared_run:
  "check_pid shared_world 4200 demo_monitor =
     Some (True, demo_monitor\<lparr>attaches := {}, events := [Ptrace_detach 4200 0]\<rparr>)"
  by (simp add: world_simps check_pid_simps)

theorem check_pid_target_witness:
  "proc_stat demo_world 4200 = Some (mk_stat 5 4200 10042) \<and>
   proc_cmdline demo_world 4200 = Some (Some ''com.example.target'') \<and>
   fmlookup (uid_proc_map demo_monitor) 10042 = Some [''com.example.target''] \<and>
   read_ns demo_world 4200 = Some (mk_stat 4 4026532000 0) \<and>
   fmlookup (zygote_map demo_monitor) 600 = Some (mk_stat 4 4026531840 0) \<and>
   check_pid demo_world 4200 demo_monitor =
     Some (True, demo_monitor\<lparr>attaches := {},
       events := [Log (Msg_target ''com.example.target'' 4200 10042),
                  Ptrace_detach 4200 19, Hide_daemon 4200]\<rparr>) \<and>
   count_list (new_events demo_monitor
       (demo_monitor\<lparr>attaches := {},
          events := [Log (Msg_target ''com.example.target'' 4200 10042),
                     Ptrace_detach 4200 19, Hide_daemon 4200]\<rparr>)) (Hide_daemon 4200) = 1"
proof -
  have ns: "\<forall>z zst. fmlookup (zygote_map demo_monitor) z = Some zst
      \<longrightarrow> \<not> same_ns zst (mk_stat 4 4026532000 0)"
    by (simp add: world_simps same_ns_def split: if_splits)
  have "\<exists>s'. check_pid demo_world 4200 demo_monitor = Some (True, s') \<and>
      new_events demo_monitor s' =
        [Log (Msg_target ''com.example.target'' 4200 (sint (st_uid (mk_stat 5 4200 10042)))),
         Ptrace_detach 4200 (uint SIGSTOP), Hide_daemon 4200] \<and>
      count_list (new_events demo_monitor s') (Hide_daemon 4200) = 1 \<and>
      pid_set_get demo_world (attaches s') (size_t_of_int demo_world 4200) = Some False \<and>
      child_event demo_world 4200 PTRACE_EVENT_CLONE s' = Some (ptrace_cont 4200 0 s') \<and>
      s' = demo_monitor\<lparr>attaches := attaches demo_monitor - {nat (4200 - 1)},
             events := events demo_monitor @ new_events demo_monitor s'\<rparr>"
    by (rule check_pid_target [where names = "[''com.example.target'']" and ns = "mk_stat 4 4026532000 0"])
      (simp_all add: ns, simp_all add: world_simps zygote_names_def str_ends_def read_ns_def
         signed_modulo_int_def)
  then show ?thesis
    by (auto simp: world_simps read_ns_def new_events_def SIGSTOP_def)
qed

text \<open>
  C2 as stated fails: with the namespace of the zygote, the configured target 4200 is
  detached by \<^verbatim>\<open>check_pid\<close>, not left attached.
\<close>

theorem check_pid_shared_ns_detaches:
  "proc_stat shared_world 4200 = Some (mk_stat 5 4200 10042) \<and>
   proc_cmdline shared_world 4200 = Some (Some ''com.example.target'') \<and>
   fmlookup (uid_proc_map demo_monitor) 10042 = Some [''com.example.target''] \<and>
   read_ns shared_world 4200 = Some (mk_stat 4 4026531840 0) \<and>
   fmlookup (zygote_map demo_monitor) 600 = Some (mk_stat 4 4026531840 0) \<and>
   check_pid shared_world 4200 demo_monitor =
     Some (True, demo_monitor\<lparr>attaches := {}, events := [Ptrace_detach 4200 0]\<rparr>) \<and>
   Ptrace_detach 4200 0 \<in> set (new_events demo_monitor
       (demo_monitor\<lparr>attaches := {}, events := [Ptrace_detach 4200 0]\<rparr>))"
  using demo_shared_run
  by (simp add: world_simps read_ns_def new_events_def)

theorem check_pid_shared_ns_witness:
  "proc_stat shared_world 4200 = Some (mk_stat 5 4200 10042) \<and>
   fmlookup (zygote_map demo_monitor) 600 = Some (mk_stat 4 4026531840 0) \<and>
   same_ns (mk_stat 4 4026531840 0) (mk_stat 4 4026531840 0) \<and>
   (\<exists>s'. check_pid shared_world 4200 demo_monitor = Some (True, s') \<and>
         new_events demo_monitor s' = [Ptrace_detach 4200 0] \<and>
         Hide_daemon 4200 \<notin> set (new_events demo_monitor s') \<and>
         pid_set_get shared_world (attaches s') (size_t_of_int shared_world 4200) = Some False \<and>
         child_event shared_world 4200 PTRACE_EVENT_CLONE s' = Some (ptrace_cont 4200 0 s'))"
  using check_pid_shared_ns [of 4200 shared_world "mk_stat 5 4200 10042" "''com.example.target''"
      demo_monitor "[''com.example.target'']" "mk_stat 4 4026531840 0" 600 "mk_stat 4 4026531840 0"]
  by (simp add: world_simps zygote_names_def str_ends_def same_ns_def read_ns_def
      signed_modulo_int_def)

theorem check_pid_isolated_range_witness:
  "proc_stat (uid_world 10090001 ''com.example.target:iso:worker'') 4200
     = Some (mk_stat 5 4200 10090001) \<and>
   sint (10090001 :: 32 word) smod 100000 = 90001 \<and>
   fmlookup (uid_proc_map iso_monitor) (- 1) = Some [''com.example.target:iso''] \<and>
   list_ex (str_starts ''com.example.target:iso:worker'') [''com.example.target:iso''] \<and>
   check_pid (uid_world 10090001 ''com.example.target:iso:worker'') 4200 iso_monitor =
     Some (True, iso_monitor\<lparr>attaches := {},
        events := [Log (Msg_isolated ''com.example.target:iso:worker'' 4200 10090001),
                   Ptrace_detach 4200 0]\<rparr>) \<and>
   sint (10090000 :: 32 word) smod 100000 = 90000 \<and>
   check_pid (uid_world 10090000 ''com.example.target:iso:worker'') 4200 iso_monitor =
     lookup_uid (uid_world 10090000 ''com.example.target:iso:worker'') 4200 10090000
       ''com.example.target:iso:worker'' (mk_stat 5 4200 10090000) iso_monitor \<and>
   lookup_uid (uid_world 10090000 ''com.example.target:iso:worker'') 4200 10090000
       ''com.example.target:iso:worker'' (mk_stat 5 4200 10090000) iso_monitor =
     Some (True, iso_monitor\<lparr>attaches := {}, events := [Ptrace_detach 4200 0]\<rparr>)"
  using check_pid_isolated_range [of 4200 "uid_world 10090001 ''com.example.target:iso:worker''"
      "mk_stat 5 4200 10090001" "''com.example.target:iso:worker''" iso_monitor]
    check_pid_isolated_range [of 4200 "uid_world 10090000 ''com.example.target:iso:worker''"
      "mk_stat 5 4200 10090000" "''com.example.target:iso:worker''" iso_monitor]
  by (simp add: world_simps zygote_names_def str_starts_def signed_modulo_int_def
      lookup_uid_def not_target_def detach_pid_in_range emit_def)

subsection \<open>The uid map\<close>

lemma listed_emplace_back:
  "listed (emplace_back k v m) k' p \<longleftrightarrow> listed m k' p \<or> (k' = k \<and> p = v)"
  by (auto simp: listed_def emplace_back_def split: option.splits)

lemma feeds_Nil: "\<not> feeds w first_iter d_name [] k p"
  by (simp add: feeds_def)

lemma feeds_Cons:
  "feeds w first_iter d_name (hide # rest) k p \<longleftrightarrow>
     (snd hide = p \<and>
        ((fst hide = isolated_magic w \<and> first_iter \<and> k = - 1) \<or>
         ((fst hide \<noteq> isolated_magic w \<or> first_iter) \<and>
          (\<exists>st. stat_path w (pkg_dir w d_name (fst hide)) = Some st \<and> sint (st_uid st) = k))))
     \<or> feeds w first_iter d_name rest k p"
  unfolding feeds_def by (cases hide) auto

lemma listed_hide_loop:
  "listed (hide_loop w (user_path w d_name) first_iter hs m) k p \<longleftrightarrow>
     listed m k p \<or> feeds w first_iter d_name hs k p"
proof (induction hs arbitrary: m)
  case Nil
  show ?case by (simp add: feeds_Nil)
next
  case (Cons hide rest)
  show ?case
  proof (cases "fst hide = isolated_magic w \<and> \<not> first_iter")
    case True
    then have "hide_loop w (user_path w d_name) first_iter (hide # rest) m =
        hide_loop w (user_path w d_name) first_iter rest m" by simp
    then show ?thesis using True Cons.IH [of m] by (auto simp: feeds_Cons)
  next
    case False
    show ?thesis
    proof (cases "stat_path w (c_str (user_path w d_name @ fst hide))")
      case None
      then show ?thesis
        using False
        by (simp add: Cons.IH feeds_Cons Let_def listed_emplace_back pkg_dir_def) blast
    next
      case (Some st)
      then show ?thesis
        using False
        by (simp add: Cons.IH feeds_Cons Let_def listed_emplace_back pkg_dir_def) blast
    qed
  qed
qed

lemma listed_user_loop:
  "listed (user_loop w first_iter ds hs m) k p \<longleftrightarrow>
     listed m k p \<or>
     (case ds of [] \<Rightarrow> False
      | d # rest \<Rightarrow> feeds w first_iter d hs k p \<or> (\<exists>d' \<in> set rest. feeds w False d' hs k p))"
proof (induction ds arbitrary: m first_iter)
  case Nil
  show ?case by simp
next
  case (Cons d rest)
  have "listed (user_loop w first_iter (d # rest) hs m) k p \<longleftrightarrow>
      listed (user_loop w False rest hs (hide_loop w (user_path w d) first_iter hs m)) k p"
    by simp
  also have "\<dots> \<longleftrightarrow> (listed m k p \<or> feeds w first_iter d hs k p) \<or>
      (case rest of [] \<Rightarrow> False
       | d' # rest' \<Rightarrow> feeds w False d' hs k p \<or> (\<exists>d'' \<in> set rest'. feeds w False d'' hs k p))"
    by (simp only: Cons.IH listed_hide_loop)
  also have "\<dots> \<longleftrightarrow> listed m k p \<or>
      (feeds w first_iter d hs k p \<or> (\<exists>d' \<in> set rest. feeds w False d' hs k p))"
    by (cases rest) auto
  finally show ?case by simp
qed

lemma listed_empty: "\<not> listed fmempty k p"
  by (simp add: listed_def)

lemma nonempty_emplace_back:
  "\<forall>k l. fmlookup m k = Some l \<longrightarrow> l \<noteq> [] \<Longrightarrow>
   \<forall>k l. fmlookup (emplace_back k' v m) k = Some l \<longrightarrow> l \<noteq> []"
  by (auto simp: emplace_back_def)

lemma nonempty_hide_loop:
  "\<forall>k l. fmlookup m k = Some l \<longrightarrow> l \<noteq> [] \<Longrightarrow>
   \<forall>k l. fmlookup (hide_loop w up first_iter hs m) k = Some l \<longrightarrow> l \<noteq> []"
proof (induction hs arbitrary: m)
  case Nil
  then show ?case by simp
next
  case (Cons hide rest)
  note ne = nonempty_emplace_back
  show ?case
  proof (cases "fst hide = isolated_magic w \<and> \<not> first_iter")
    case True
    then have "hide_loop w up first_iter (hide # rest) m = hide_loop w up first_iter rest m"
      by simp
    then show ?thesis using Cons.IH [OF Cons.prems] by simp
  next
    case False
    define m1 where "m1 = (if fst hide = isolated_magic w then emplace_back (- 1) (snd hide) m else m)"
    have m1: "\<forall>k l. fmlookup m1 k = Some l \<longrightarrow> l \<noteq> []"
      unfolding m1_def using Cons.prems ne [OF Cons.prems] by simp
    show ?thesis
    proof (cases "stat_path w (c_str (up @ fst hide))")
      case None
      then have "hide_loop w up first_iter (hide # rest) m = hide_loop w up first_iter rest m1"
        using False by (auto simp: m1_def Let_def)
      then show ?thesis using Cons.IH [OF m1] by simp
    next
      case (Some st)
      then have "hide_loop w up first_iter (hide # rest) m =
          hide_loop w up first_iter rest (emplace_back (sint (st_uid st)) (snd hide) m1)"
        using False by (auto simp: m1_def Let_def)
      then show ?thesis using Cons.IH [OF ne [OF m1]] by simp
    qed
  qed
qed

lemma nonempty_user_loop:
  "\<forall>k l. fmlookup m k = Some l \<longrightarrow> l \<noteq> [] \<Longrightarrow>
   \<forall>k l. fmlookup (user_loop w first_iter ds hs m) k = Some l \<longrightarrow> l \<noteq> []"
proof (induction ds arbitrary: m first_iter)
  case Nil
  then show ?case by simp
next
  case (Cons d rest)
  show ?case
    using Cons.IH [OF nonempty_hide_loop [OF Cons.prems]] by simp
qed

lemma listed_update_uid_map:
  "listed (uid_proc_map (update_uid_map w s)) k p \<longleftrightarrow>
     (case data_users w of [] \<Rightarrow> False
      | d # rest \<Rightarrow> feeds w True d (hide_set s) k p \<or>
                    (\<exists>d' \<in> set rest. feeds w False d' (hide_set s) k p))"
  by (simp add: update_uid_map_def listed_user_loop listed_empty)

text \<open>
  C3, as amended. After \<^verbatim>\<open>update_uid_map\<close>: for every pair of \<^verbatim>\<open>hide_set\<close> whose package
  is not the isolated sentinel and every entry of \<^verbatim>\<open>APP_DATA_DIR\<close> under which the
  directory of the package exists, the map lists the process under the uid that owns the
  directory. Conversely every name the map lists under a key is the process of a pair of
  \<^verbatim>\<open>hide_set\<close> whose package is the sentinel, or whose directory exists under some entry
  and is owned by that key. No list of the map is empty, and the map does not depend on
  the map held before the call.
\<close>

theorem update_uid_map_entries:
  "(\<forall>pkg p d st. (pkg, p) \<in> set (hide_set s) \<and> pkg \<noteq> isolated_magic w \<and>
        d \<in> set (data_users w) \<and> stat_path w (pkg_dir w d pkg) = Some st
      \<longrightarrow> listed (uid_proc_map (update_uid_map w s)) (sint (st_uid st)) p) \<and>
   (\<forall>k p. listed (uid_proc_map (update_uid_map w s)) k p
      \<longrightarrow> (\<exists>pkg. (pkg, p) \<in> set (hide_set s) \<and>
             (pkg = isolated_magic w \<or>
              (\<exists>d \<in> set (data_users w). \<exists>st.
                 stat_path w (pkg_dir w d pkg) = Some st \<and> sint (st_uid st) = k)))) \<and>
   (\<forall>k l. fmlookup (uid_proc_map (update_uid_map w s)) k = Some l \<longrightarrow> l \<noteq> []) \<and>
   (\<forall>m. update_uid_map w (s\<lparr>uid_proc_map := m\<rparr>) = update_uid_map w s)"
proof (intro conjI allI impI)
  fix pkg p d st
  assume a: "(pkg, p) \<in> set (hide_set s) \<and> pkg \<noteq> isolated_magic w \<and>
        d \<in> set (data_users w) \<and> stat_path w (pkg_dir w d pkg) = Some st"
  then have f: "feeds w b d (hide_set s) (sint (st_uid st)) p" for b
    unfolding feeds_def by blast
  obtain d0 rest where ds: "data_users w = d0 # rest"
    using a by (cases "data_users w") auto
  then have "d = d0 \<or> d \<in> set rest" using a by auto
  then show "listed (uid_proc_map (update_uid_map w s)) (sint (st_uid st)) p"
    using f ds by (auto simp: listed_update_uid_map)
next
  fix k p
  assume l: "listed (uid_proc_map (update_uid_map w s)) k p"
  then obtain d b where d: "d \<in> set (data_users w)" "feeds w b d (hide_set s) k p"
    by (auto simp: listed_update_uid_map split: list.splits)
  then show "\<exists>pkg. (pkg, p) \<in> set (hide_set s) \<and>
             (pkg = isolated_magic w \<or>
              (\<exists>d \<in> set (data_users w). \<exists>st.
                 stat_path w (pkg_dir w d pkg) = Some st \<and> sint (st_uid st) = k))"
    unfolding feeds_def by blast
next
  fix k l
  assume "fmlookup (uid_proc_map (update_uid_map w s)) k = Some l"
  moreover have "\<forall>k l. fmlookup (user_loop w True (data_users w) (hide_set s) fmempty) k = Some l
      \<longrightarrow> l \<noteq> []"
    by (rule nonempty_user_loop) simp
  ultimately show "l \<noteq> []" by (simp add: update_uid_map_def)
next
  fix m
  show "update_uid_map w (s\<lparr>uid_proc_map := m\<rparr>) = update_uid_map w s"
    by (simp add: update_uid_map_def)
qed

lemmas uid_map_simps =
  update_uid_map_def user_path_def pkg_dir_def c_str_def emplace_back_def listed_def Let_def

lemma demo_refresh:
  "uid_proc_map (update_uid_map demo_world demo_monitor)
     = fmupd 10042 [''com.example.target''] fmempty"
  by (simp add: demo_world_def demo_monitor_def mk_stat_def uid_map_simps)

lemma two_refresh:
  "uid_proc_map (update_uid_map two_world two_monitor) = fmupd 10051 [''p''] fmempty"
  by (simp add: two_world_def two_monitor_def idle_monitor_def demo_world_def mk_stat_def
      uid_map_simps)

theorem update_uid_map_entries_witness:
  "(''com.example.target'', ''com.example.target'') \<in> set (hide_set demo_monitor) \<and>
   ''com.example.target'' \<noteq> isolated_magic demo_world \<and>
   ''0'' \<in> set (data_users demo_world) \<and>
   stat_path demo_world (pkg_dir demo_world ''0'' ''com.example.target'')
     = Some (mk_stat 64 1300 10042) \<and>
   listed (uid_proc_map (update_uid_map demo_world demo_monitor)) 10042 ''com.example.target'' \<and>
   fmlookup (uid_proc_map (update_uid_map demo_world demo_monitor)) 10042
     = Some [''com.example.target''] \<and>
   update_uid_map demo_world (demo_monitor\<lparr>uid_proc_map := fmupd 7 [''stale''] fmempty\<rparr>)
     = update_uid_map demo_world demo_monitor"
proof -
  have h: "(''com.example.target'', ''com.example.target'') \<in> set (hide_set demo_monitor) \<and>
      ''com.example.target'' \<noteq> isolated_magic demo_world \<and>
      ''0'' \<in> set (data_users demo_world) \<and>
      stat_path demo_world (pkg_dir demo_world ''0'' ''com.example.target'')
        = Some (mk_stat 64 1300 10042)"
    by (simp add: demo_world_def demo_monitor_def uid_map_simps)
  note e = update_uid_map_entries [of demo_monitor demo_world]
  have "listed (uid_proc_map (update_uid_map demo_world demo_monitor))
      (sint (st_uid (mk_stat 64 1300 10042))) ''com.example.target''"
    using e h by blast
  moreover have "update_uid_map demo_world (demo_monitor\<lparr>uid_proc_map := fmupd 7 [''stale''] fmempty\<rparr>)
     = update_uid_map demo_world demo_monitor"
    using e by blast
  ultimately show ?thesis using h demo_refresh by (simp add: mk_stat_def)
qed

lemma list_ex_keys:
  "list_ex (\<lambda>k. listed m k p) (sorted_list_of_fset (fmdom m)) \<longleftrightarrow> (\<exists>k. listed m k p)"
  by (auto simp: list_ex_iff listed_def fmlookup_dom_iff split: option.splits)

text \<open>
  C3 as stated fails: when two packages configure the same process name and only the
  second is installed, the map lists the name, under the uid of the second, although the
  directory of the first exists for no user.
\<close>

theorem update_uid_map_shared_name:
  "(''com.a'', ''p'') \<in> set (hide_set two_monitor) \<and>
   ''com.a'' \<noteq> isolated_magic two_world \<and>
   uid_proc_map (update_uid_map two_world two_monitor) = fmupd 10051 [''p''] fmempty \<and>
   listed (uid_proc_map (update_uid_map two_world two_monitor)) 10051 ''p'' \<and>
   data_users two_world = [''0''] \<and>
   stat_path two_world (pkg_dir two_world ''0'' ''com.a'') = None \<and>
   \<not> refresh_iff two_world (update_uid_map two_world two_monitor) ''com.a'' ''p''"
proof -
  have "listed (uid_proc_map (update_uid_map two_world two_monitor)) 10051 ''p''"
    by (simp add: two_refresh listed_def)
  then have "\<exists>k. listed (uid_proc_map (update_uid_map two_world two_monitor)) k ''p''" by blast
  moreover have "stat_path two_world (pkg_dir two_world ''0'' ''com.a'') = None"
    "data_users two_world = [''0'']"
    by (simp_all add: two_world_def demo_world_def uid_map_simps)
  ultimately have "\<not> refresh_iff two_world (update_uid_map two_world two_monitor) ''com.a'' ''p''"
    by (simp add: refresh_iff_def list_ex_keys)
  then show ?thesis
    using two_refresh
    by (simp add: two_world_def two_monitor_def idle_monitor_def demo_world_def uid_map_simps)
qed

theorem update_uid_map_idempotent_witness:
  "update_uid_map demo_world (update_uid_map demo_world demo_monitor)
     = update_uid_map demo_world demo_monitor \<and>
   hide_set (idle_monitor\<lparr>hide_set := hide_set demo_monitor\<rparr>) = hide_set demo_monitor \<and>
   uid_proc_map (update_uid_map demo_world (idle_monitor\<lparr>hide_set := hide_set demo_monitor\<rparr>))
     = uid_proc_map (update_uid_map demo_world demo_monitor) \<and>
   uid_proc_map (update_uid_map demo_world demo_monitor)
     = fmupd 10042 [''com.example.target''] fmempty"
  using update_uid_map_idempotent [of demo_world demo_monitor
      "idle_monitor\<lparr>hide_set := hide_set demo_monitor\<rparr>" fmempty] demo_refresh
  by simp

lemma demo_thread_stop:
  "proc_monitor_iter demo_world (Wait_pid 4201 0x137f 0) demo_monitor
     = Some (demo_monitor\<lparr>events := [Ptrace_detach 4201 0]\<rparr>)"
  by (simp add: run_simps pid_set_get_in_range pid_set_put_in_range detach_pid_in_range)

theorem hide_set_frame_witness:
  "hide_set (update_uid_map demo_world demo_monitor) = hide_set demo_monitor \<and>
   hide_set (new_zygote demo_world 4200 demo_monitor) = hide_set demo_monitor \<and>
   hide_set (check_zygote demo_world demo_monitor) = hide_set demo_monitor \<and>
   hide_set (inotify_event demo_world (Some (8, ''packages.xml'')) demo_monitor)
     = hide_set demo_monitor \<and>
   check_pid demo_world 4200 demo_monitor =
     Some (True, demo_monitor\<lparr>attaches := {},
       events := [Log (Msg_target ''com.example.target'' 4200 10042),
                  Ptrace_detach 4200 19, Hide_daemon 4200]\<rparr>) \<and>
   hide_set (demo_monitor\<lparr>attaches := {},
       events := [Log (Msg_target ''com.example.target'' 4200 10042),
                  Ptrace_detach 4200 19, Hide_daemon 4200]\<rparr>) = hide_set demo_monitor \<and>
   proc_monitor_iter demo_world (Wait_pid 4201 0x137f 0) demo_monitor
     = Some (demo_monitor\<lparr>events := [Ptrace_detach 4201 0]\<rparr>) \<and>
   hide_set (demo_monitor\<lparr>events := [Ptrace_detach 4201 0]\<rparr>) = hide_set demo_monitor \<and>
   0 \<le> inotify_init_fd demo_world \<and>
   hide_set (snd (proc_monitor_start demo_world demo_monitor)) = hide_set demo_monitor \<and>
   hide_set (term_thread demo_monitor) = [] \<and>
   inotify_init_fd (demo_world\<lparr>inotify_init_fd := - 1\<rparr>) < 0 \<and>
   hide_set (snd (proc_monitor_start (demo_world\<lparr>inotify_init_fd := - 1\<rparr>) demo_monitor)) = []"
proof -
  note f = hide_set_frame [of demo_world demo_monitor 4200 "Some (8, ''packages.xml'')"
      "Wait_pid 4201 0x137f 0"]
  note g = hide_set_frame [of "demo_world\<lparr>inotify_init_fd := - 1\<rparr>" demo_monitor 4200 None
      "Wait_pid 4201 0x137f 0"]
  have fd: "0 \<le> inotify_init_fd demo_world"
    "inotify_init_fd (demo_world\<lparr>inotify_init_fd := - 1\<rparr>) < 0"
    by (simp_all add: demo_world_def)
  show ?thesis
    using f g fd demo_target_run demo_thread_stop by simp
qed

subsection \<open>A session\<close>

text \<open>
  The functions run on the device, from the start of the monitor: the zygote is found and
  traced and the timer armed; the zygote forks 4200, whose bit is set; 4200 stops with
  \<^verbatim>\<open>SIGSTOP\<close> and is traced for clone, exec and exit; at its clone stop it is classified,
  detached with \<^verbatim>\<open>SIGSTOP\<close> and handed to \<^verbatim>\<open>hide_daemon\<close>, and not continued.
\<close>

lemma demo_start_eq:
  "demo_start =
     \<lparr>hide_set = [(''com.example.target'', ''com.example.target'')],
      zygote_map = fmupd 600 (mk_stat 4 4026531840 0) fmempty,
      uid_proc_map = fmupd 10042 [''com.example.target''] fmempty,
      attaches = {},
      inotify_fd = 7,
      itimer = 250000,
      events = [Inotify_watch ''/data/system'', Inotify_watch ''/system/bin/app_process32'',
                Inotify_watch ''/system/bin/app_process64'',
                Log (Msg_ptrace_zygote 600), Ptrace_attach 600, Waitpid 600,
                Ptrace_setoptions 600 [TRACEFORK, TRACEVFORK, TRACEEXIT], Ptrace_cont 600 0,
                Setitimer 250000 250000]\<rparr>"
  by (simp add: demo_start_def proc_monitor_start_def setup_inotify_def APP_PROC_def demo_simps
      uid_map_simps mk_stat_def)

lemma demo_fork:
  "proc_monitor_iter demo_world (Wait_pid 600 0x1057f 4200) demo_start =
     Some (demo_start\<lparr>attaches := {4199},
             events := events demo_start @ [Ptrace_geteventmsg 600, Ptrace_cont 600 0]\<rparr>)"
  by (simp add: demo_start_eq proc_monitor_iter_def zygote_event_def WIFSTOPPED_def WSTOPSIG_def
      WEVENT_def SIGTRAP_def SIGSTOP_def PTRACE_EVENT_FORK_def emit_def ptrace_cont_def Let_def
      pid_set_put_def pid_slot_def size_bits_def PID_MAX_def demo_world_def)

lemma demo_first_stop:
  "proc_monitor_iter demo_world (Wait_pid 4200 0x137f 0) demo_forked =
     Some (demo_forked\<lparr>events := events demo_forked @
             [Ptrace_setoptions 4200 [TRACECLONE, TRACEEXEC, TRACEEXIT], Ptrace_cont 4200 0]\<rparr>)"
  by (simp add: demo_forked_def proc_monitor_iter_def sigstop_event_def WIFSTOPPED_def
      WSTOPSIG_def WEVENT_def SIGTRAP_def SIGSTOP_def emit_def ptrace_cont_def Let_def
      pid_set_get_in_range)

lemma demo_clone_stop:
  "proc_monitor_iter demo_world (Wait_pid 4200 0x3057f 4210)
      (demo_forked\<lparr>events := events demo_forked @
             [Ptrace_setoptions 4200 [TRACECLONE, TRACEEXEC, TRACEEXIT], Ptrace_cont 4200 0]\<rparr>) =
     Some (demo_forked\<lparr>attaches := {},
             events := events demo_forked @
               [Ptrace_setoptions 4200 [TRACECLONE, TRACEEXEC, TRACEEXIT], Ptrace_cont 4200 0,
                Ptrace_geteventmsg 4200, Log (Msg_target ''com.example.target'' 4200 10042),
                Ptrace_detach 4200 19, Hide_daemon 4200]\<rparr>)"
  by (simp add: demo_forked_def demo_start_eq proc_monitor_iter_def child_event_def
      WIFSTOPPED_def WSTOPSIG_def WEVENT_def SIGTRAP_def SIGSTOP_def PTRACE_EVENT_CLONE_def
      ptrace_cont_def pid_set_get_in_range world_simps check_pid_simps)

lemma demo_session:
  "proc_monitor_loop demo_world
      [Wait_pid 600 0x1057f 4200, Wait_pid 4200 0x137f 0, Wait_pid 4200 0x3057f 4210] demo_start =
     Some (demo_start\<lparr>attaches := {},
             events := events demo_start @
               [Ptrace_geteventmsg 600, Ptrace_cont 600 0,
                Ptrace_setoptions 4200 [TRACECLONE, TRACEEXEC, TRACEEXIT], Ptrace_cont 4200 0,
                Ptrace_geteventmsg 4200, Log (Msg_target ''com.example.target'' 4200 10042),
                Ptrace_detach 4200 19, Hide_daemon 4200]\<rparr>)"
  using demo_fork demo_first_stop demo_clone_stop
  by (simp add: demo_forked_def)

end
